theory Spec2Isabelle
  imports Main "HOL-Library.Sublist"
begin

section \<open>JavaScript primitives used by the example scripts\<close>

text \<open>
  The scripts are TypeScript run by Node. Strings are modelled as \<^typ>\<open>string\<close>,
  \<open>bigint\<close> values as \<^typ>\<open>int\<close>, and the \<open>number\<close> arguments that the scripts only
  ever use as non-negative integers (token decimals, millisecond durations) as \<^typ>\<open>nat\<close>.
\<close>

subsection \<open>String.prototype.startsWith, includes, padStart, slice\<close>

fun startsWith :: "string \<Rightarrow> string \<Rightarrow> bool" where
  "startsWith s [] = True"
| "startsWith [] (c # cs) = False"
| "startsWith (x # xs) (c # cs) = (x = c \<and> startsWith xs cs)"

fun str_includes :: "string \<Rightarrow> string \<Rightarrow> bool" where
  "str_includes [] pat = startsWith [] pat"
| "str_includes (x # xs) pat = (startsWith (x # xs) pat \<or> str_includes xs pat)"

definition padStart :: "string \<Rightarrow> nat \<Rightarrow> char \<Rightarrow> string" where
  "padStart s targetLength c =
     (if targetLength \<le> length s then s else replicate (targetLength - length s) c @ s)"

definition slice0 :: "string \<Rightarrow> nat \<Rightarrow> string" where
  "slice0 s n = take n s"

subsection \<open>BigInt arithmetic and BigInt.prototype.toString\<close>

text \<open>
  BigInt division truncates towards zero and the remainder takes the sign of the
  dividend; HOL's \<open>div\<close> on \<^typ>\<open>int\<close> floors, so both are written out.
\<close>

definition bigint_div :: "int \<Rightarrow> int \<Rightarrow> int" where
  "bigint_div a b = sgn a * sgn b * (\<bar>a\<bar> div \<bar>b\<bar>)"

definition bigint_rem :: "int \<Rightarrow> int \<Rightarrow> int" where
  "bigint_rem a b = sgn a * (\<bar>a\<bar> mod \<bar>b\<bar>)"

definition digit_char :: "nat \<Rightarrow> char" where
  "digit_char d = ''0123456789'' ! d"

fun nat_toString :: "nat \<Rightarrow> string" where
  "nat_toString n =
     (if n < 10 then [digit_char n] else nat_toString (n div 10) @ [digit_char (n mod 10)])"

declare nat_toString.simps [simp del]

definition bigint_toString :: "int \<Rightarrow> string" where
  "bigint_toString i = (if i < 0 then CHR ''-'' # nat_toString (nat (- i)) else nat_toString (nat i))"

section \<open>evm/shared/types.ts and solana/utils/connection.ts: utilities\<close>

text \<open>
  \<^verbatim>\<open>
  export function formatAmount(amount: bigint, decimals: number): string {
    const divisor = 10n ** BigInt(decimals);
    const integerPart = amount / divisor;
    const fractionalPart = amount % divisor;
    const fractionalStr = fractionalPart.toString().padStart(decimals, "0");
    return `${integerPart}.${fractionalStr.slice(0, 6)}`;
  }
  \<close>
  \<open>formatTokenAmount\<close> in the Solana utilities has the same body.
\<close>

definition formatAmount :: "int \<Rightarrow> nat \<Rightarrow> string" where
  "formatAmount amount decimals =
     (let divisor = 10 ^ decimals;
          integerPart = bigint_div amount divisor;
          fractionalPart = bigint_rem amount divisor;
          fractionalStr = padStart (bigint_toString fractionalPart) decimals (CHR ''0'')
      in bigint_toString integerPart @ ''.'' @ slice0 fractionalStr 6)"

definition formatTokenAmount :: "int \<Rightarrow> nat \<Rightarrow> string" where
  "formatTokenAmount amount decimals =
     (let divisor = 10 ^ decimals;
          integerPart = bigint_div amount divisor;
          fractionalPart = bigint_rem amount divisor;
          fractionalStr = padStart (bigint_toString fractionalPart) decimals (CHR ''0'')
      in bigint_toString integerPart @ ''.'' @ slice0 fractionalStr 6)"

text \<open>
  The format as the specification words it: the decimal numeral of the quotient, a dot,
  and the first \<open>min 6 decimals\<close> digits of the remainder written with exactly
  \<open>decimals\<close> digits. \<open>fixed_digits d r\<close> is \<open>r\<close> written with exactly \<open>d\<close> digits.
\<close>

fun fixed_digits :: "nat \<Rightarrow> nat \<Rightarrow> string" where
  "fixed_digits 0 r = []"
| "fixed_digits (Suc d) r = fixed_digits d (r div 10) @ [digit_char (r mod 10)]"

definition spec_formatAmount :: "int \<Rightarrow> nat \<Rightarrow> string" where
  "spec_formatAmount amount decimals =
     nat_toString (nat (amount div 10 ^ decimals)) @ ''.'' @
     take (min 6 decimals) (fixed_digits decimals (nat (amount mod 10 ^ decimals)))"

text \<open>
  \<^verbatim>\<open>
  export function is1inchGateway(rpcUrl: string): boolean {
    return rpcUrl.includes("api.1inch.com/web3");
  }
  \<close>
\<close>

definition is1inchGateway :: "string \<Rightarrow> bool" where
  "is1inchGateway rpcUrl = str_includes rpcUrl ''api.1inch.com/web3''"


subsection \<open>Thrown values and the environment\<close>

text \<open>
  A thrown value as the handlers of the scripts inspect it: whether it is an instance of
  \<open>Error\<close>, the text that \<open>error instanceof Error ? error.message : error\<close> prints, and
  the JSON text of \<open>error.response.data\<close> when the value is an object that carries such a
  (truthy) payload.
\<close>

datatype js_error =
  JsError (instanceof_Error: bool) (message: string) (response_data: "string option")

definition new_Error :: "string \<Rightarrow> js_error" where
  "new_Error msg = JsError True msg None"

text \<open>
  \<open>process.env\<close> maps names to strings; a missing variable is \<open>undefined\<close>. Both
  \<open>undefined\<close> and the empty string are falsy, which is what \<open>!x\<close> and \<open>x || d\<close> test.
\<close>

type_synonym environment = "string \<Rightarrow> string option"

definition falsy :: "string option \<Rightarrow> bool" where
  "falsy v = (case v of None \<Rightarrow> True | Some s \<Rightarrow> s = [])"

definition or_default :: "string option \<Rightarrow> string \<Rightarrow> string" where
  "or_default v d = (case v of None \<Rightarrow> d | Some s \<Rightarrow> if s = [] then d else s)"

fun join :: "string \<Rightarrow> string list \<Rightarrow> string" where
  "join sep [] = []"
| "join sep [x] = x"
| "join sep (x # y # ys) = x @ sep @ join sep (y # ys)"


subsection \<open>Reading a property of an object literal\<close>

text \<open>
  \<open>NETWORK_MAP[config.networkId]\<close> and \<open>VIEM_CHAIN_MAP[config.networkId]\<close> read a property
  of a plain object. A name that is not a key of the literal is looked up on
  \<open>Object.prototype\<close>, whose properties are functions (and, for \<open>__proto__\<close>, the
  prototype object itself): all of them truthy, so the test \<open>if (!network)\<close> passes for
  them. Only a name found nowhere gives \<open>undefined\<close>.
\<close>

definition Object_prototype_keys :: "string list" where
  "Object_prototype_keys =
     [''constructor'', ''__defineGetter__'', ''__defineSetter__'', ''hasOwnProperty'',
      ''__lookupGetter__'', ''__lookupSetter__'', ''isPrototypeOf'', ''propertyIsEnumerable'',
      ''toString'', ''valueOf'', ''__proto__'', ''toLocaleString'']"

datatype 'a property = Own 'a | Inherited string

definition get_property :: "(string \<times> 'a) list \<Rightarrow> string \<Rightarrow> 'a property option" where
  "get_property obj name =
     (case map_of obj name of
        Some v \<Rightarrow> Some (Own v)
      | None \<Rightarrow> if name \<in> set Object_prototype_keys then Some (Inherited name) else None)"

section \<open>evm/shared/types.ts: configuration\<close>

datatype NetworkEnum =
  ETHEREUM | COINBASE | BINANCE | POLYGON | ARBITRUM | OPTIMISM | AVALANCHE
  | GNOSIS | FANTOM | ZKSYNC | LINEA | SONIC | UNICHAIN

text \<open>
  \<open>NETWORK_MAP\<close> is an object literal keyed by chain id. \<open>Object.keys\<close> lists
  integer-like keys in ascending numeric order, which is the order of the list here.
\<close>

definition NETWORK_MAP :: "(string \<times> NetworkEnum) list" where
  "NETWORK_MAP =
     [(''1'', ETHEREUM), (''10'', OPTIMISM), (''56'', BINANCE), (''100'', GNOSIS),
      (''130'', UNICHAIN), (''137'', POLYGON), (''146'', SONIC), (''250'', FANTOM),
      (''324'', ZKSYNC), (''8453'', COINBASE), (''42161'', ARBITRUM),
      (''43114'', AVALANCHE), (''59144'', LINEA)]"

record Config =
  apiKey :: string
  privateKey :: string
  rpcUrl :: string
  networkId :: string

definition getDefaultRpcUrl :: "string \<Rightarrow> string" where
  "getDefaultRpcUrl nid = ''https://api.1inch.com/web3/'' @ nid"

definition loadConfig :: "environment \<Rightarrow> js_error + Config" where
  "loadConfig env =
     (let apiKey_v = env ''API_KEY'';
          privateKey_v = env ''EVM_PRIVATE_KEY'';
          networkId_v = or_default (env ''EVM_NETWORK_ID'') ''1''
      in if falsy apiKey_v then
           Inl (new_Error ''Missing required environment variable: API_KEY'')
         else
           let rpcUrl_v = or_default (env ''EVM_RPC_URL'') (getDefaultRpcUrl networkId_v)
           in if falsy privateKey_v then
                Inl (new_Error ''Missing required environment variable: EVM_PRIVATE_KEY'')
              else if \<not> startsWith (the privateKey_v) ''0x'' then
                Inl (new_Error ''EVM_PRIVATE_KEY must start with 0x'')
              else
                Inr \<lparr>apiKey = the apiKey_v, privateKey = the privateKey_v,
                     rpcUrl = rpcUrl_v, networkId = networkId_v\<rparr>)"

section \<open>The calls into ethers.js and viem\<close>

text \<open>
  The two libraries are external. What the repository decides is which library function
  is called, on which client, with which arguments; that is what a \<open>lib_call\<close> records.
  A client is described by what it was constructed from: the HTTP transport (URL and
  optional \<open>Authorization\<close> header), for a viem client the chain it is pinned to, and for
  a wallet the address of its account.
\<close>

datatype abi_arg = AddressArg string | UintArg int | StringArg string

record transport =
  url :: string
  authorization :: "string option"

datatype viem_chain =
  mainnet | base | bsc | polygon | arbitrum | optimism | avalanche | gnosis | fantom
  | zkSync | linea | sonic

text \<open>
  An ethers contract or call runs on a \<open>JsonRpcProvider\<close> or on a \<open>Wallet\<close> connected to
  one; viem has a public client and a wallet client, both created with \<open>chain\<close>.
\<close>

datatype ethers_runner = JsonRpcProvider transport | Wallet string transport

datatype viem_client =
    PublicClient "viem_chain property" transport
  | WalletClient string "viem_chain property" transport

text \<open>
  The argument of \<open>web3Like.eth.call\<close>: the fields \<open>to\<close> and \<open>data\<close>, and whatever other
  fields the caller set.
\<close>

datatype transaction_config =
  TransactionConfig (tx_to: string) (tx_data: string) (tx_rest: "(string \<times> string) list")

datatype lib_call =
    Ethers_getBalance ethers_runner string
  | Ethers_Contract ethers_runner string string "abi_arg list"
  | Ethers_waitForTransaction ethers_runner string
  | Ethers_call ethers_runner transaction_config
  | Viem_getBalance viem_client string
  | Viem_readContract viem_client string string "abi_arg list"
  | Viem_writeContract viem_client string "viem_chain property" string string "abi_arg list"
  | Viem_waitForTransactionReceipt viem_client string
  | Viem_call viem_client string string

text \<open>
  \<open>Ethers_Contract runner address name args\<close> is
  \<open>new Contract(address, ERC20_ABI, runner)[name](...args)\<close>;
  \<open>Viem_writeContract client account chain address name args\<close> is
  \<open>client.writeContract({ account, chain, address, abi, functionName: name, args })\<close>.
  The ABI decides whether an ethers contract method reads or sends a transaction.
  \<open>ERC20_ABI\<close> and \<open>ERC20_ABI_VIEM\<close> list the same five functions.
\<close>

datatype stateMutability = view | nonpayable

definition ERC20_ABI :: "(string \<times> stateMutability) list" where
  "ERC20_ABI =
     [(''allowance'', view), (''approve'', nonpayable), (''balanceOf'', view),
      (''decimals'', view), (''symbol'', view)]"

text \<open>
  The constructors that validate the private key throw on a malformed one. They are
  parameters of the model: \<open>new Wallet(privateKey, provider)\<close> of ethers and
  \<open>privateKeyToAccount(privateKey)\<close> of viem give the address of the key or throw, and
  \<open>new PrivateKeyProviderConnector(privateKey, web3Like)\<close> of the Fusion SDK may throw.
\<close>

record evm_lib =
  new_Wallet :: "string \<Rightarrow> js_error + string"
  privateKeyToAccount :: "string \<Rightarrow> js_error + string"
  new_PrivateKeyProviderConnector :: "string \<Rightarrow> js_error option"

section \<open>evm/providers: the EVMProvider interface and its two implementations\<close>

text \<open>
  The \<open>Web3Like\<close> adapter: the library call that \<open>eth.call(transactionConfig)\<close> makes, and
  what it returns for the answer of the library (\<open>None\<close> is \<open>undefined\<close>).
\<close>

record web3Like =
  eth_call :: "transaction_config \<Rightarrow> lib_call"
  eth_call_returns :: "string option \<Rightarrow> string option"

text \<open>
  A provider is the object \<open>createProvider\<close> returns (\<open>address\<close>, \<open>web3Like\<close> and the five
  operations, each given by the library call it makes and returns the answer of),
  together with the transport and the chain its clients were constructed with.
\<close>

record EVMProvider =
  address :: string
  web3Like :: web3Like
  client_transport :: transport
  client_chain :: "viem_chain property option"
  getNativeBalance :: "string \<Rightarrow> lib_call"
  getTokenBalance :: "string \<Rightarrow> string \<Rightarrow> lib_call"
  getTokenAllowance :: "string \<Rightarrow> string \<Rightarrow> string \<Rightarrow> lib_call"
  approveToken :: "string \<Rightarrow> string \<Rightarrow> int \<Rightarrow> lib_call"
  waitForTransaction :: "string \<Rightarrow> lib_call"

text \<open>
  providers/ethers.ts:
  \<^verbatim>\<open>
  if (is1inchGateway(config.rpcUrl)) {
    const fetchRequest = new FetchRequest(config.rpcUrl);
    fetchRequest.setHeader("Authorization", `Bearer ${config.apiKey}`);
    jsonRpcProvider = new JsonRpcProvider(fetchRequest);
  } else {
    jsonRpcProvider = new JsonRpcProvider(config.rpcUrl);
  }
  const wallet = new Wallet(config.privateKey, jsonRpcProvider);
  const web3Like: Web3Like = {
    eth: { call(transactionConfig) { return jsonRpcProvider.call(transactionConfig); } },
    extend(): void {}
  };
  return {
    address: wallet.address,
    web3Like,
    async getNativeBalance(address) { return jsonRpcProvider.getBalance(address); },
    async getTokenBalance(tokenAddress, ownerAddress) {
      const contract = new Contract(tokenAddress, ERC20_ABI, jsonRpcProvider);
      return contract.balanceOf(ownerAddress);
    },
    async getTokenAllowance(tokenAddress, ownerAddress, spenderAddress) {
      const contract = new Contract(tokenAddress, ERC20_ABI, jsonRpcProvider);
      return contract.allowance(ownerAddress, spenderAddress);
    },
    async approveToken(tokenAddress, spenderAddress, amount) {
      const contract = new Contract(tokenAddress, ERC20_ABI, wallet);
      const tx = await contract.approve(spenderAddress, amount);
      return tx.hash;
    },
    async waitForTransaction(txHash) { await jsonRpcProvider.waitForTransaction(txHash); }
  };
  \<close>
  The network id of the configuration is not read.
\<close>

definition ethers_createProvider :: "evm_lib \<Rightarrow> Config \<Rightarrow> js_error + EVMProvider" where
  "ethers_createProvider lib config =
     (let rpc =
            (if is1inchGateway (rpcUrl config)
             then \<lparr>url = rpcUrl config, authorization = Some (''Bearer '' @ apiKey config)\<rparr>
             else \<lparr>url = rpcUrl config, authorization = None\<rparr>);
          jsonRpcProvider = JsonRpcProvider rpc
      in case new_Wallet lib (privateKey config) of
           Inl e \<Rightarrow> Inl e
         | Inr wallet_address \<Rightarrow>
             let wallet = Wallet wallet_address rpc
             in Inr \<lparr>address = wallet_address,
                     web3Like =
                       \<lparr>eth_call = (\<lambda>transactionConfig. Ethers_call jsonRpcProvider transactionConfig),
                        eth_call_returns = (\<lambda>result. result)\<rparr>,
                     client_transport = rpc,
                     client_chain = None,
                     getNativeBalance = (\<lambda>a. Ethers_getBalance jsonRpcProvider a),
                     getTokenBalance = (\<lambda>tokenAddress ownerAddress.
                        Ethers_Contract jsonRpcProvider tokenAddress ''balanceOf''
                          [AddressArg ownerAddress]),
                     getTokenAllowance = (\<lambda>tokenAddress ownerAddress spenderAddress.
                        Ethers_Contract jsonRpcProvider tokenAddress ''allowance''
                          [AddressArg ownerAddress, AddressArg spenderAddress]),
                     approveToken = (\<lambda>tokenAddress spenderAddress amount.
                        Ethers_Contract wallet tokenAddress ''approve''
                          [AddressArg spenderAddress, UintArg amount]),
                     waitForTransaction = (\<lambda>txHash.
                        Ethers_waitForTransaction jsonRpcProvider txHash)\<rparr>)"

text \<open>
  providers/viem.ts. \<open>VIEM_CHAIN_MAP\<close> has no entry for Unichain:
  \<^verbatim>\<open>
  "146": sonic
  // Note: Unichain (130) not yet available in viem/chains
  \<close>
  and \<open>createProvider\<close> throws before any client exists when the lookup gives \<open>undefined\<close>:
  \<^verbatim>\<open>
  const chain = VIEM_CHAIN_MAP[config.networkId];
  if (!chain) { ... throw new Error(`Unsupported network ID: ...`); }
  const account = privateKeyToAccount(config.privateKey as Hex);
  const transportOptions = is1inchGateway(config.rpcUrl)
    ? { fetchOptions: { headers: { Authorization: `Bearer ${config.apiKey}` } } } : undefined;
  const publicClient = createPublicClient({ chain, transport: http(config.rpcUrl, transportOptions) });
  const walletClient = createWalletClient({ account, chain, transport: http(...) });
  const web3Like: Web3Like = {
    eth: {
      async call(transactionConfig) {
        const result = await publicClient.call({ to: transactionConfig.to, data: transactionConfig.data });
        return result.data || "0x";
      }
    },
    extend(): void {}
  };
  return {
    address: account.address,
    web3Like,
    async getNativeBalance(address) { return publicClient.getBalance({ address }); },
    async getTokenBalance(tokenAddress, ownerAddress) {
      return publicClient.readContract({ address: tokenAddress, abi: ERC20_ABI_VIEM,
        functionName: "balanceOf", args: [ownerAddress] });
    },
    async getTokenAllowance(tokenAddress, ownerAddress, spenderAddress) {
      return publicClient.readContract({ address: tokenAddress, abi: ERC20_ABI_VIEM,
        functionName: "allowance", args: [ownerAddress, spenderAddress] });
    },
    async approveToken(tokenAddress, spenderAddress, amount) {
      return walletClient.writeContract({ account, chain, address: tokenAddress,
        abi: ERC20_ABI_VIEM, functionName: "approve", args: [spenderAddress, amount] });
    },
    async waitForTransaction(txHash) { await publicClient.waitForTransactionReceipt({ hash: txHash }); }
  };
  \<close>
\<close>

definition VIEM_CHAIN_MAP :: "(string \<times> viem_chain) list" where
  "VIEM_CHAIN_MAP =
     [(''1'', mainnet), (''10'', optimism), (''56'', bsc), (''100'', gnosis),
      (''137'', polygon), (''146'', sonic), (''250'', fantom), (''324'', zkSync),
      (''8453'', base), (''42161'', arbitrum), (''43114'', avalanche), (''59144'', linea)]"

definition viem_createProvider :: "evm_lib \<Rightarrow> Config \<Rightarrow> js_error + EVMProvider" where
  "viem_createProvider lib config =
     (case get_property VIEM_CHAIN_MAP (networkId config) of
        None \<Rightarrow>
          Inl (new_Error (''Unsupported network ID: '' @ networkId config @ ''. Supported: ''
                          @ join '', '' (map fst VIEM_CHAIN_MAP)))
      | Some chain \<Rightarrow>
          (case privateKeyToAccount lib (privateKey config) of
             Inl e \<Rightarrow> Inl e
           | Inr account \<Rightarrow>
               let transportOptions =
                     (if is1inchGateway (rpcUrl config)
                      then Some (''Bearer '' @ apiKey config) else None);
                   http = \<lparr>url = rpcUrl config, authorization = transportOptions\<rparr>;
                   publicClient = PublicClient chain http;
                   walletClient = WalletClient account chain http
               in Inr \<lparr>address = account,
                       web3Like =
                         \<lparr>eth_call = (\<lambda>transactionConfig.
                            Viem_call publicClient (tx_to transactionConfig)
                              (tx_data transactionConfig)),
                          eth_call_returns = (\<lambda>data. Some (or_default data ''0x''))\<rparr>,
                       client_transport = http,
                       client_chain = Some chain,
                       getNativeBalance = (\<lambda>a. Viem_getBalance publicClient a),
                       getTokenBalance = (\<lambda>tokenAddress ownerAddress.
                          Viem_readContract publicClient tokenAddress ''balanceOf''
                            [AddressArg ownerAddress]),
                       getTokenAllowance = (\<lambda>tokenAddress ownerAddress spenderAddress.
                          Viem_readContract publicClient tokenAddress ''allowance''
                            [AddressArg ownerAddress, AddressArg spenderAddress]),
                       approveToken = (\<lambda>tokenAddress spenderAddress amount.
                          Viem_writeContract walletClient account chain tokenAddress ''approve''
                            [AddressArg spenderAddress, UintArg amount]),
                       waitForTransaction = (\<lambda>txHash.
                          Viem_waitForTransactionReceipt publicClient txHash)\<rparr>))"

section \<open>evm/shared/types.ts: SDK construction\<close>

text \<open>
  \<^verbatim>\<open>
  export function createFusionSDK(config: Config, web3Like: Web3Like): FusionSDK {
    const network = NETWORK_MAP[config.networkId];
    if (!network) {
      const supported = Object.keys(NETWORK_MAP).join(", ");
      throw new Error(`Unsupported network ID: ${config.networkId}. Supported: ${supported}`);
    }
    const connector = new PrivateKeyProviderConnector(config.privateKey, web3Like);
    return new FusionSDK({ url: "https://api.1inch.com/fusion", network,
                           blockchainProvider: connector, authKey: config.apiKey });
  }
  \<close>
  The SDK object is external; the options it is constructed with are kept.
\<close>

datatype connector = PrivateKeyProviderConnector string web3Like

record FusionSDK =
  sdk_url :: string
  sdk_network :: "NetworkEnum property"
  sdk_blockchainProvider :: connector
  sdk_authKey :: string

definition createFusionSDK :: "evm_lib \<Rightarrow> Config \<Rightarrow> web3Like \<Rightarrow> js_error + FusionSDK" where
  "createFusionSDK lib config w3 =
     (case get_property NETWORK_MAP (networkId config) of
        None \<Rightarrow>
          Inl (new_Error (''Unsupported network ID: '' @ networkId config @ ''. Supported: ''
                          @ join '', '' (map fst NETWORK_MAP)))
      | Some network \<Rightarrow>
          (case new_PrivateKeyProviderConnector lib (privateKey config) of
             Some e \<Rightarrow> Inl e
           | None \<Rightarrow>
               Inr \<lparr>sdk_url = ''https://api.1inch.com/fusion'', sdk_network = network,
                    sdk_blockchainProvider =
                      PrivateKeyProviderConnector (privateKey config) w3,
                    sdk_authKey = apiKey config\<rparr>))"

section \<open>solana/utils/connection.ts\<close>

type_synonym bytes = "nat list"

record SolanaConfig =
  sol_apiKey :: string
  sol_privateKey :: string
  sol_rpcUrl :: string

definition sol_loadConfig :: "environment \<Rightarrow> js_error + SolanaConfig" where
  "sol_loadConfig env =
     (let apiKey_v = env ''API_KEY'';
          privateKey_v = env ''SOLANA_PRIVATE_KEY'';
          rpcUrl_v = or_default (env ''SOLANA_RPC_URL'') ''https://api.1inch.com/web3/501''
      in if falsy apiKey_v then
           Inl (new_Error ''Missing required environment variable: API_KEY'')
         else if falsy privateKey_v then
           Inl (new_Error ''Missing required environment variable: SOLANA_PRIVATE_KEY'')
         else
           Inr \<lparr>sol_apiKey = the apiKey_v, sol_privateKey = the privateKey_v,
                sol_rpcUrl = rpcUrl_v\<rparr>)"

text \<open>
  The options \<open>createWallet\<close> passes to \<open>new Connection\<close>.
\<close>

record Connection =
  endpoint :: string
  commitment :: string
  httpHeaders :: "string option"
  wsEndpoint :: "string option"

text \<open>
  The library functions are parameters of the model. \<open>bs58.decode\<close> throws on a
  character outside its alphabet (\<open>None\<close>), \<open>Buffer.from(s, "base64")\<close> never throws.
  \<open>Keypair.fromSecretKey\<close> and \<open>Keypair.fromSeed\<close> may reject the bytes they are given,
  and \<open>new Connection\<close> may reject the endpoint URL (\<open>Some\<close> the error it throws).
\<close>

record 'k solana_lib =
  bs58_decode :: "string \<Rightarrow> bytes option"
  base64_decode :: "string \<Rightarrow> bytes"
  Keypair_fromSecretKey :: "bytes \<Rightarrow> js_error + 'k"
  Keypair_fromSeed :: "bytes \<Rightarrow> js_error + 'k"
  new_Connection :: "string \<Rightarrow> js_error option"

definition invalid_key_format :: js_error where
  "invalid_key_format =
     new_Error (''Invalid SOLANA_PRIVATE_KEY format. Expected base58 or base64-encoded 64-byte secret key. ''
                @ ''You can export this from your Solana wallet or generate with solana-keygen.'')"

text \<open>
  The nested \<open>try\<close>/\<open>catch\<close> of \<open>createWallet\<close> that assigns \<open>secretKey\<close>:
  \<^verbatim>\<open>
  try {
    secretKey = bs58.decode(config.privateKey);
    if (secretKey.length !== 64) { throw new Error("Invalid key length from base58"); }
  } catch {
    try {
      secretKey = Buffer.from(config.privateKey, "base64");
      if (secretKey.length !== 64) { throw new Error("Invalid key length from base64"); }
    } catch {
      throw new Error("Invalid SOLANA_PRIVATE_KEY format. ...");
    }
  }
  \<close>
  The outer \<open>catch\<close> takes both a throwing \<open>bs58.decode\<close> and the length error thrown in
  the \<open>try\<close> block; the inner \<open>catch\<close> replaces the base64 length error by the
  descriptive one.
\<close>

definition createWallet_secretKey :: "'k solana_lib \<Rightarrow> string \<Rightarrow> js_error + bytes" where
  "createWallet_secretKey lib pk =
     (case (case bs58_decode lib pk of
              None \<Rightarrow> Inl (new_Error ''Non-base58 character'')
            | Some secretKey \<Rightarrow>
                if length secretKey \<noteq> 64 then Inl (new_Error ''Invalid key length from base58'')
                else Inr secretKey) of
        Inr secretKey \<Rightarrow> Inr secretKey
      | Inl _ \<Rightarrow>
          (case (let secretKey = base64_decode lib pk
                 in if length secretKey \<noteq> 64
                    then Inl (new_Error ''Invalid key length from base64'')
                    else Inr secretKey) of
             Inr secretKey \<Rightarrow> Inr secretKey
           | Inl _ \<Rightarrow> Inl invalid_key_format))"

text \<open>
  \<^verbatim>\<open>
  export function createWallet(config: Config): { connection: Connection; wallet: Keypair } {
    const is1inchGateway = config.rpcUrl.includes("api.1inch.com/web3");
    const wsEndpoint = is1inchGateway ? `wss://api.1inch.com/web3/501?apiKey=${config.apiKey}` : undefined;
    const connection = new Connection(config.rpcUrl, {
      commitment: "confirmed",
      httpHeaders: is1inchGateway ? { Authorization: `Bearer ${config.apiKey}` } : undefined,
      wsEndpoint
    });
    let secretKey: Uint8Array;
    ...
    const wallet = Keypair.fromSecretKey(secretKey);
    return { connection, wallet };
  }
  \<close>
\<close>

definition createWallet :: "'k solana_lib \<Rightarrow> SolanaConfig \<Rightarrow> js_error + (Connection \<times> 'k)" where
  "createWallet lib config =
     (let is1inchGateway_v = str_includes (sol_rpcUrl config) ''api.1inch.com/web3'';
          wsEndpoint_v =
            (if is1inchGateway_v
             then Some (''wss://api.1inch.com/web3/501?apiKey='' @ sol_apiKey config) else None)
      in case new_Connection lib (sol_rpcUrl config) of
           Some e \<Rightarrow> Inl e
         | None \<Rightarrow>
             let connection =
                   \<lparr>endpoint = sol_rpcUrl config, commitment = ''confirmed'',
                    httpHeaders =
                      (if is1inchGateway_v then Some (''Bearer '' @ sol_apiKey config) else None),
                    wsEndpoint = wsEndpoint_v\<rparr>
             in case createWallet_secretKey lib (sol_privateKey config) of
                  Inl e \<Rightarrow> Inl e
                | Inr secretKey \<Rightarrow>
                    (case Keypair_fromSecretKey lib secretKey of
                       Inl e \<Rightarrow> Inl e
                     | Inr wallet \<Rightarrow> Inr (connection, wallet)))"

text \<open>
  \<open>createSolanaSDK\<close> calls \<open>createWallet\<close> and constructs the SDK with the API key.
\<close>

definition createSolanaSDK ::
  "'k solana_lib \<Rightarrow> SolanaConfig \<Rightarrow> js_error + (string \<times> Connection \<times> 'k)" where
  "createSolanaSDK lib config =
     (case createWallet lib config of
        Inl e \<Rightarrow> Inl e
      | Inr (connection, wallet) \<Rightarrow> Inr (sol_apiKey config, connection, wallet))"

text \<open>
  solana/quick-start.ts decodes the key at module level, and accepts seeds:
  \<^verbatim>\<open>
  try { secretKey = bs58.decode(PRIVATE_KEY); }
  catch { secretKey = Buffer.from(PRIVATE_KEY, "base64"); }
  if (secretKey.length === 32) { wallet = Keypair.fromSeed(secretKey); }
  else if (secretKey.length === 64) { wallet = Keypair.fromSecretKey(secretKey); }
  else { throw new Error(`Invalid private key length: ... (expected 32 or 64)`); }
  \<close>
\<close>

definition quick_start_wallet :: "'k solana_lib \<Rightarrow> string \<Rightarrow> js_error + 'k" where
  "quick_start_wallet lib pk =
     (let secretKey = (case bs58_decode lib pk of
                         Some k \<Rightarrow> k
                       | None \<Rightarrow> base64_decode lib pk)
      in if length secretKey = 32 then Keypair_fromSeed lib secretKey
         else if length secretKey = 64 then Keypair_fromSecretKey lib secretKey
         else Inl (new_Error (''Invalid private key length: ''
                    @ nat_toString (length secretKey) @ '' bytes (expected 32 or 64)'')))"

section \<open>Running a script: calls, outcomes, the polling loops\<close>

text \<open>
  A run of \<open>main\<close> is modelled by the list of external calls it awaited, in order, and
  by how the promise returned by \<open>main\<close> settled. Calls made through an
  \<open>EVMProvider\<close> carry the library call the provider makes.
\<close>

datatype call =
    Lib lib_call
  | SendTransaction
  | TxWait
  | GetQuote
  | CreateOrder
  | SubmitOrder
  | SubmitNativeOrder
  | GetOrderStatus
  | GetBalance_sol
  | GetLatestBlockhash
  | SendRawTransaction
  | ConfirmTransaction
  | GetSignatureStatuses

datatype outcome = Return | Throw js_error

type_synonym run = "call list \<times> outcome"

definition perform :: "call \<Rightarrow> js_error + 'a \<Rightarrow> ('a \<Rightarrow> run) \<Rightarrow> run" where
  "perform c r k =
     (case r of
        Inl e \<Rightarrow> ([c], Throw e)
      | Inr v \<Rightarrow> (case k v of (t, out) \<Rightarrow> (c # t, out)))"

definition and_then :: "run \<Rightarrow> run \<Rightarrow> run" where
  "and_then a b =
     (case a of
        (t, Return) \<Rightarrow> (case b of (t', out) \<Rightarrow> (t @ t', out))
      | (t, Throw e) \<Rightarrow> (t, Throw e))"

datatype order_status =
  Pending | Filled | FalsePredicate | NotEnoughBalanceOrAllowance | Expired
  | PartiallyFilled | WrongPermit | Cancelled | InvalidSignature

text \<open>
  The status API as the loop sees it: the \<open>i\<close>-th call of \<open>getOrderStatus\<close> yields a status
  or throws, and takes some milliseconds. \<open>sleep(pollInterval)\<close> takes \<open>pollInterval\<close>
  milliseconds. \<open>elapsed\<close> is \<open>Date.now() - startTime\<close>.
\<close>

type_synonym 'a feed = "nat \<Rightarrow> (js_error + 'a) \<times> nat"

definition orderTimeout :: nat where "orderTimeout = 300000"
definition pollInterval :: nat where "pollInterval = 3000"
definition sol_pollInterval :: nat where "sol_pollInterval = 2000"

datatype loop_step = Returned | Continue

text \<open>
  evm/swap-erc20.ts (the Permit2 and native-token scripts have the same loop):
  \<^verbatim>\<open>
  while (Date.now() - startTime < SWAP_CONFIG.orderTimeout) {
    try {
      const status = await sdk.getOrderStatus(orderInfo.orderHash);
      switch (status.status) {
        case OrderStatus.Filled:    ... return;
        case OrderStatus.Expired:   throw new Error("Order expired without being filled");
        case OrderStatus.Cancelled: throw new Error("Order was cancelled");
        default: process.stdout.write("."); await sleep(SWAP_CONFIG.pollInterval);
      }
    } catch (error: unknown) {
      if (error instanceof Error && error.message.includes("Order")) { throw error; }
      console.log("\n   Status check failed, retrying...");
      await sleep(SWAP_CONFIG.pollInterval);
    }
  }
  throw new Error(`Order timeout after ${SWAP_CONFIG.orderTimeout / 1000}s`);
  \<close>
\<close>

definition try_block :: "js_error + order_status \<Rightarrow> js_error + loop_step" where
  "try_block r =
     (case r of
        Inl e \<Rightarrow> Inl e
      | Inr status \<Rightarrow>
          (case status of
             Filled \<Rightarrow> Inr Returned
           | Expired \<Rightarrow> Inl (new_Error ''Order expired without being filled'')
           | Cancelled \<Rightarrow> Inl (new_Error ''Order was cancelled'')
           | _ \<Rightarrow> Inr Continue))"

definition catch_block :: "js_error \<Rightarrow> js_error + loop_step" where
  "catch_block error =
     (if instanceof_Error error \<and> str_includes (message error) ''Order'' then Inl error
      else Inr Continue)"

definition iteration :: "js_error + order_status \<Rightarrow> js_error + loop_step" where
  "iteration r = (case try_block r of Inl e \<Rightarrow> catch_block e | Inr a \<Rightarrow> Inr a)"

function poll_loop :: "order_status feed \<Rightarrow> nat \<Rightarrow> nat \<Rightarrow> nat \<times> outcome" where
  "poll_loop feed i elapsed =
     (if elapsed < orderTimeout then
        (case iteration (fst (feed i)) of
           Inr Returned \<Rightarrow> (Suc i, Return)
         | Inl e \<Rightarrow> (Suc i, Throw e)
         | Inr Continue \<Rightarrow> poll_loop feed (Suc i) (elapsed + snd (feed i) + pollInterval))
      else (i, Throw (new_Error ''Order timeout after 300s'')))"
  by pat_completeness auto
termination
  by (relation "measure (\<lambda>(feed, i, elapsed). orderTimeout - elapsed)")
     (auto simp: pollInterval_def)

declare poll_loop.simps [simp del]

text \<open>
  solana/swap-sol-to-jup.ts:
  \<^verbatim>\<open>
  while (Date.now() - startTime < SWAP_CONFIG.orderTimeout) {
    try {
      const status = await sdk.getOrderStatus(orderHash);
      if (!status.isActive()) { ... return; }
      process.stdout.write(".");
      await sleep(SWAP_CONFIG.pollInterval);
    } catch {
      console.log("\n   Status check failed, retrying...");
      await sleep(SWAP_CONFIG.pollInterval);
    }
  }
  // Timeout doesn't mean failure - the order might still be filled!
  console.log("\n Order timeout. The order may still be filled later.");
  \<close>
  The feed carries the value of \<open>status.isActive()\<close>.
\<close>

definition sol_iteration :: "js_error + bool \<Rightarrow> loop_step" where
  "sol_iteration r =
     (case r of
        Inl e \<Rightarrow> Continue
      | Inr isActive \<Rightarrow> if \<not> isActive then Returned else Continue)"

function sol_poll_loop :: "bool feed \<Rightarrow> nat \<Rightarrow> nat \<Rightarrow> nat \<times> outcome" where
  "sol_poll_loop feed i elapsed =
     (if elapsed < orderTimeout then
        (case sol_iteration (fst (feed i)) of
           Returned \<Rightarrow> (Suc i, Return)
         | Continue \<Rightarrow> sol_poll_loop feed (Suc i) (elapsed + snd (feed i) + sol_pollInterval))
      else (i, Return))"
  by pat_completeness auto
termination
  by (relation "measure (\<lambda>(feed, i, elapsed). orderTimeout - elapsed)")
     (auto simp: sol_pollInterval_def)

declare sol_poll_loop.simps [simp del]

definition poll_run :: "nat \<times> outcome \<Rightarrow> run" where
  "poll_run r = (case r of (n, out) \<Rightarrow> (replicate n GetOrderStatus, out))"

section \<open>The EVM polling scripts\<close>

definition USDC :: string where "USDC = ''0xA0b86991c6218b36c1d19D4a2e9Eb0cE3606eB48''"
definition AGGREGATION_ROUTER_V6 :: string where
  "AGGREGATION_ROUTER_V6 = ''0x111111125421ca6dc452d289314280a0f8842a65''"
definition PERMIT2 :: string where "PERMIT2 = ''0x000000000022D473030F116dDEE9F6B43aC78BA3''"
definition MAX_UINT256 :: int where "MAX_UINT256 = 2 ^ 256 - 1"

text \<open>
  A quote, as far as the scripts look at it: the name of the recommended preset and the
  names for which \<open>quote.presets\<close> has an entry.
\<close>

datatype quote = Quote (recommendedPreset: string) (presets: "string list")

text \<open>
  What the outside world answers during one run of an EVM script: the environment, and
  the result of each awaited call (\<open>Inl\<close> when the call throws).
\<close>

datatype evm_world = EvmWorld
  (env: environment)
  (balance_result: "js_error + int")
  (allowance_result: "js_error + int")
  (approve_result: "js_error + string")
  (wait_result: "js_error + unit")
  (quote_result: "js_error + quote")
  (createOrder_result: "js_error + unit")
  (submitOrder_result: "js_error + string")
  (escrow_send_result: "js_error + string")
  (escrow_wait_result: "js_error + unit")
  (status_feed: "order_status feed")

definition dquote :: string where "dquote = [CHR 0x22]"

text \<open>
  evm/swap-erc20.ts, \<open>main\<close>. The amount is \<open>BigInt("1000000")\<close>, the token has 6 decimals.
  \<open>createProvider\<close> is the function the script imports (from providers/ethers.js, or from
  providers/viem.js when the import is switched).
\<close>

definition swap_erc20_main ::
  "evm_lib \<Rightarrow> (Config \<Rightarrow> js_error + EVMProvider) \<Rightarrow> evm_world \<Rightarrow> run" where
  "swap_erc20_main lib createProvider w =
     (case loadConfig (env w) of Inl e \<Rightarrow> ([], Throw e) | Inr config \<Rightarrow>
      case createProvider config of Inl e \<Rightarrow> ([], Throw e) | Inr provider \<Rightarrow>
      case createFusionSDK lib config (web3Like provider) of Inl e \<Rightarrow> ([], Throw e) | Inr sdk \<Rightarrow>
      perform (Lib (getTokenBalance provider USDC (address provider))) (balance_result w)
        (\<lambda>balance.
      let amountBigInt = 1000000 in
      if balance < amountBigInt then
        ([], Throw (new_Error (''Insufficient USDC balance. Have: '' @ formatAmount balance 6
                               @ '', Need: '' @ formatAmount amountBigInt 6)))
      else
      perform (Lib (getTokenAllowance provider USDC (address provider) AGGREGATION_ROUTER_V6))
        (allowance_result w) (\<lambda>allowance.
      and_then
        (if allowance < amountBigInt then
           perform (Lib (approveToken provider USDC AGGREGATION_ROUTER_V6 amountBigInt))
             (approve_result w) (\<lambda>txHash.
           perform (Lib (waitForTransaction provider txHash)) (wait_result w) (\<lambda>_.
           ([], Return)))
         else ([], Return))
        (perform GetQuote (quote_result w) (\<lambda>quote.
         if recommendedPreset quote \<notin> set (presets quote) then
           ([], Throw (new_Error (''Preset '' @ dquote @ recommendedPreset quote @ dquote
                                  @ '' not found in quote response'')))
         else
         perform CreateOrder (createOrder_result w) (\<lambda>preparedOrder.
         perform SubmitOrder (submitOrder_result w) (\<lambda>orderInfo.
         poll_run (poll_loop (status_feed w) 0 0))))))))"

text \<open>
  evm/swap-with-permit2.ts, \<open>main\<close>: 10 USDC, the spender is the Permit2 contract and the
  approval is for \<open>MAX_UINT256\<close>.
\<close>

definition swap_permit2_main ::
  "evm_lib \<Rightarrow> (Config \<Rightarrow> js_error + EVMProvider) \<Rightarrow> evm_world \<Rightarrow> run" where
  "swap_permit2_main lib createProvider w =
     (case loadConfig (env w) of Inl e \<Rightarrow> ([], Throw e) | Inr config \<Rightarrow>
      case createProvider config of Inl e \<Rightarrow> ([], Throw e) | Inr provider \<Rightarrow>
      case createFusionSDK lib config (web3Like provider) of Inl e \<Rightarrow> ([], Throw e) | Inr sdk \<Rightarrow>
      perform (Lib (getTokenBalance provider USDC (address provider))) (balance_result w)
        (\<lambda>balance.
      let amountBigInt = 10000000 in
      if balance < amountBigInt then
        ([], Throw (new_Error (''Insufficient USDC balance. Have: '' @ formatAmount balance 6
                               @ '', Need: '' @ formatAmount amountBigInt 6)))
      else
      perform (Lib (getTokenAllowance provider USDC (address provider) PERMIT2))
        (allowance_result w) (\<lambda>permit2Allowance.
      and_then
        (if permit2Allowance < amountBigInt then
           perform (Lib (approveToken provider USDC PERMIT2 MAX_UINT256))
             (approve_result w) (\<lambda>txHash.
           perform (Lib (waitForTransaction provider txHash)) (wait_result w) (\<lambda>_.
           ([], Return)))
         else ([], Return))
        (perform GetQuote (quote_result w) (\<lambda>quote.
         if recommendedPreset quote \<notin> set (presets quote) then
           ([], Throw (new_Error (''Preset '' @ dquote @ recommendedPreset quote @ dquote
                                  @ '' not found in quote response'')))
         else
         perform CreateOrder (createOrder_result w) (\<lambda>preparedOrder.
         perform SubmitOrder (submitOrder_result w) (\<lambda>orderInfo.
         poll_run (poll_loop (status_feed w) 0 0))))))))"

text \<open>
  The native-token script (ETH to USDC), \<open>main\<close>: 0.001 ETH plus a gas buffer of
  0.005 ETH, no approval. After the order was submitted the script constructs an ethers
  wallet of its own, whichever provider is imported, and sends the escrow transaction
  with it:
  \<^verbatim>\<open>
  const orderInfo = await sdk.submitNativeOrder(preparedOrder.order, makerAddress, preparedOrder.quoteId);
  ...
  const wallet = new Wallet(config.privateKey, ethersProvider);
  const network = NETWORK_MAP[config.networkId];
  const factory = NativeOrdersFactory.default(network);
  const call = factory.create(makerAddress, orderInfo.order);
  const txRes = await wallet.sendTransaction({ to: call.to.toString(), data: call.data, value: call.value });
  await txRes.wait();
  \<close>
\<close>

definition swap_native_main ::
  "evm_lib \<Rightarrow> (Config \<Rightarrow> js_error + EVMProvider) \<Rightarrow> evm_world \<Rightarrow> run" where
  "swap_native_main lib createProvider w =
     (case loadConfig (env w) of Inl e \<Rightarrow> ([], Throw e) | Inr config \<Rightarrow>
      case createProvider config of Inl e \<Rightarrow> ([], Throw e) | Inr provider \<Rightarrow>
      case createFusionSDK lib config (web3Like provider) of Inl e \<Rightarrow> ([], Throw e) | Inr sdk \<Rightarrow>
      perform (Lib (getNativeBalance provider (address provider))) (balance_result w)
        (\<lambda>balance.
      let amountBigInt = 1000000000000000;
          gasBuffer = 5000000000000000;
          totalNeeded = amountBigInt + gasBuffer in
      if balance < totalNeeded then
        ([], Throw (new_Error (''Insufficient ETH balance. Have: '' @ formatAmount balance 18
                               @ '' ETH, Need: '' @ formatAmount totalNeeded 18
                               @ '' ETH (including gas buffer)'')))
      else
      perform GetQuote (quote_result w) (\<lambda>quote.
      if recommendedPreset quote \<notin> set (presets quote) then
        ([], Throw (new_Error (''Preset '' @ dquote @ recommendedPreset quote @ dquote
                               @ '' not found in quote response'')))
      else
      perform CreateOrder (createOrder_result w) (\<lambda>preparedOrder.
      perform SubmitNativeOrder (submitOrder_result w) (\<lambda>orderInfo.
      case new_Wallet lib (privateKey config) of Inl e \<Rightarrow> ([], Throw e) | Inr wallet \<Rightarrow>
      perform SendTransaction (escrow_send_result w) (\<lambda>txRes.
      perform TxWait (escrow_wait_result w) (\<lambda>_.
      poll_run (poll_loop (status_feed w) 0 0))))))))"

section \<open>Entry points\<close>

text \<open>
  What a finished process leaves behind: the external calls made, the lines written to
  the standard error stream (by the top-level handler, or by Node for an exception or a
  promise rejection that nothing handles), and the exit status. A process that ends
  without calling \<open>process.exit\<close> and without an uncaught exception has status 0; an
  uncaught exception or an unhandled rejection gives status 1.
\<close>

datatype log_line =
    ErrorLine string
  | ApiResponseLine string
  | ConsoleError js_error
  | Uncaught js_error

datatype process_end = ProcessEnd (calls: "call list") (stderr: "log_line list") (exit_code: nat)

text \<open>
  The entry point of the polling scripts, of the Solana WebSocket tracker and of the
  cancel-order script:
  \<^verbatim>\<open>
  main()
    .then(() => { console.log("..."); process.exit(0); })
    .catch((error: unknown) => {
      console.error("\n Error:", error instanceof Error ? error.message : error);
      if (error && typeof error === "object" && "response" in error) {
        const response = (error as { response?: { data?: unknown } }).response;
        if (response?.data) {
          console.error("   API Response:", JSON.stringify(response.data, null, 2));
        }
      }
      process.exit(1);
    });
  \<close>
\<close>

definition entry_point :: "run \<Rightarrow> process_end" where
  "entry_point r =
     (case r of
        (t, Return) \<Rightarrow> ProcessEnd t [] 0
      | (t, Throw error) \<Rightarrow>
          ProcessEnd t
            (ErrorLine (message error)
             # (case response_data error of
                  Some d \<Rightarrow> [ApiResponseLine d]
                | None \<Rightarrow> []))
            1)"

text \<open>The quick-start entry point is \<open>main().catch(console.error)\<close>.\<close>

definition quick_start_entry_point :: "run \<Rightarrow> process_end" where
  "quick_start_entry_point r =
     (case r of
        (t, Return) \<Rightarrow> ProcessEnd t [] 0
      | (t, Throw error) \<Rightarrow> ProcessEnd t [ConsoleError error] 0)"

definition swap_erc20 ::
  "evm_lib \<Rightarrow> (Config \<Rightarrow> js_error + EVMProvider) \<Rightarrow> evm_world \<Rightarrow> process_end" where
  "swap_erc20 lib createProvider w = entry_point (swap_erc20_main lib createProvider w)"

definition swap_permit2 ::
  "evm_lib \<Rightarrow> (Config \<Rightarrow> js_error + EVMProvider) \<Rightarrow> evm_world \<Rightarrow> process_end" where
  "swap_permit2 lib createProvider w = entry_point (swap_permit2_main lib createProvider w)"

definition swap_native ::
  "evm_lib \<Rightarrow> (Config \<Rightarrow> js_error + EVMProvider) \<Rightarrow> evm_world \<Rightarrow> process_end" where
  "swap_native lib createProvider w = entry_point (swap_native_main lib createProvider w)"

section \<open>The EVM quick start\<close>

text \<open>
  The module reads the two variables, constructs the provider, the wallet and the SDK
  at top level, where an exception is uncaught, and then runs \<open>main().catch(console.error)\<close>:
  \<^verbatim>\<open>
  if (!API_KEY || !PRIVATE_KEY) {
    throw new Error("Missing API_KEY or EVM_PRIVATE_KEY in environment");
  }
  const rpcUrl = "https://api.1inch.com/web3/1";
  const fetchReq = new ethers.FetchRequest(rpcUrl);
  fetchReq.setHeader("Authorization", `Bearer ${API_KEY}`);
  const provider = new ethers.JsonRpcProvider(fetchReq, 1, { staticNetwork: true });
  const wallet = new ethers.Wallet(PRIVATE_KEY, provider);
  const sdk = new FusionSDK({ ...,
    blockchainProvider: new PrivateKeyProviderConnector(PRIVATE_KEY, { ... }), authKey: API_KEY });
  \<close>
  \<open>main\<close> reads the allowance, approves when it is too small, asks for a quote, creates
  and submits the order, and returns:
  \<^verbatim>\<open>
  const token = new ethers.Contract(params.fromTokenAddress, ERC20_ABI, wallet);
  const allowance = await token.allowance(wallet.address, AGGREGATION_ROUTER_V6);
  if (allowance < BigInt(params.amount)) {
    const tx = await token.approve(AGGREGATION_ROUTER_V6, params.amount);
    await tx.wait();
  }
  const quote = await sdk.getQuote(params);
  const order = await sdk.createOrder(params);
  const result = await sdk.submitOrder(order.order, order.quoteId);
  \<close>
  \<open>params.amount\<close> is the string \<open>"1000000"\<close>.
\<close>

definition evm_quick_start_main :: "ethers_runner \<Rightarrow> string \<Rightarrow> evm_world \<Rightarrow> run" where
  "evm_quick_start_main wallet wallet_address w =
     perform (Lib (Ethers_Contract wallet USDC ''allowance''
                     [AddressArg wallet_address, AddressArg AGGREGATION_ROUTER_V6]))
       (allowance_result w) (\<lambda>allowance.
     and_then
       (if allowance < 1000000 then
          perform (Lib (Ethers_Contract wallet USDC ''approve''
                          [AddressArg AGGREGATION_ROUTER_V6, StringArg ''1000000'']))
            (approve_result w) (\<lambda>tx.
          perform TxWait (wait_result w) (\<lambda>_. ([], Return)))
        else ([], Return))
       (perform GetQuote (quote_result w) (\<lambda>quote.
        perform CreateOrder (createOrder_result w) (\<lambda>order.
        perform SubmitOrder (submitOrder_result w) (\<lambda>result. ([], Return))))))"

definition evm_quick_start :: "evm_lib \<Rightarrow> evm_world \<Rightarrow> process_end" where
  "evm_quick_start lib w =
     (if falsy (env w ''API_KEY'') \<or> falsy (env w ''EVM_PRIVATE_KEY'') then
        ProcessEnd [] [Uncaught (new_Error ''Missing API_KEY or EVM_PRIVATE_KEY in environment'')] 1
      else
        let API_KEY = the (env w ''API_KEY'');
            PRIVATE_KEY = the (env w ''EVM_PRIVATE_KEY'');
            fetchReq = \<lparr>url = ''https://api.1inch.com/web3/1'',
                        authorization = Some (''Bearer '' @ API_KEY)\<rparr>
        in case new_Wallet lib PRIVATE_KEY of
             Inl e \<Rightarrow> ProcessEnd [] [Uncaught e] 1
           | Inr wallet_address \<Rightarrow>
               (case new_PrivateKeyProviderConnector lib PRIVATE_KEY of
                  Some e \<Rightarrow> ProcessEnd [] [Uncaught e] 1
                | None \<Rightarrow>
                    quick_start_entry_point
                      (evm_quick_start_main (Wallet wallet_address fetchReq) wallet_address w)))"

section \<open>The WebSocket trackers: the order completion promise\<close>

text \<open>
  Both tracker scripts keep \<open>orderHash\<close> (null until the order exists),
  \<open>orderCompleted\<close>, one timer and one promise. A promise settles once: \<open>resolve\<close> and
  \<open>reject\<close> on a settled promise do nothing. A timer that was cleared does not fire.
  \<^verbatim>\<open>
  const orderCompletionPromise = new Promise<void>((resolve, reject) => {
    const timeout = setTimeout(() => {
      reject(new Error(`Order timeout after ${SWAP_CONFIG.timeout / 1000}s`));
    }, SWAP_CONFIG.timeout);
    ws.order.onOrderCreated((event) => { if (event.result.orderHash === orderHash) { log } });
    ws.order.onOrderFilled((event) => {
      if (event.result.orderHash === orderHash) {
        clearTimeout(timeout); orderCompleted = true; resolve();
      }
    });
    ws.order.onOrderFilledPartially((event) => { if (...) { log } });
    ws.order.onOrderInvalid((event) => {
      if (event.result.orderHash === orderHash) {
        clearTimeout(timeout); orderCompleted = true;
        reject(new Error("Order was invalidated or cancelled"));
      }
    });
    ws.order.onOrderBalanceOrAllowanceChange((event) => { if (...) { log } });
  });
  \<close>
  The Solana tracker registers \<open>onOrderCreated\<close>, \<open>onOrderFilled\<close> and
  \<open>onOrderCancelled\<close> (rejecting with \<open>"Order was cancelled"\<close>).
\<close>

datatype promise_state = Unsettled | Resolved | Rejected js_error

datatype timer_state = Armed | Cleared | Fired

record tracker =
  orderHash :: "string option"
  orderCompleted :: bool
  timeout :: timer_state
  orderCompletionPromise :: promise_state

text \<open>
  The order events of the WebSocket API, each with \<open>event.result.orderHash\<close>, and what
  the event loop can run while \<open>main\<close> is suspended at an \<open>await\<close>: the callback of
  the timer, or the handler of an order event that arrived.
\<close>

datatype ws_event =
    OrderCreated string
  | OrderFilled string
  | OrderFilledPartially string
  | OrderInvalid string
  | OrderBalanceOrAllowanceChange string
  | OrderCancelled string

datatype macrotask = TimeoutFires | Message ws_event

definition initial_tracker :: tracker where
  "initial_tracker =
     \<lparr>orderHash = None, orderCompleted = False, timeout = Armed,
      orderCompletionPromise = Unsettled\<rparr>"

definition resolve :: "tracker \<Rightarrow> tracker" where
  "resolve s =
     (if orderCompletionPromise s = Unsettled then s\<lparr>orderCompletionPromise := Resolved\<rparr>
      else s)"

definition reject :: "js_error \<Rightarrow> tracker \<Rightarrow> tracker" where
  "reject e s =
     (if orderCompletionPromise s = Unsettled then s\<lparr>orderCompletionPromise := Rejected e\<rparr>
      else s)"

definition clearTimeout :: "tracker \<Rightarrow> tracker" where
  "clearTimeout s = (if timeout s = Armed then s\<lparr>timeout := Cleared\<rparr> else s)"

definition timeout_callback :: "tracker \<Rightarrow> tracker" where
  "timeout_callback s =
     (if timeout s = Armed
      then reject (new_Error ''Order timeout after 300s'') (s\<lparr>timeout := Fired\<rparr>)
      else s)"

definition onOrderFilled :: "string \<Rightarrow> tracker \<Rightarrow> tracker" where
  "onOrderFilled h s =
     (if Some h = orderHash s
      then resolve ((clearTimeout s)\<lparr>orderCompleted := True\<rparr>)
      else s)"

definition onOrderInvalid :: "string \<Rightarrow> tracker \<Rightarrow> tracker" where
  "onOrderInvalid h s =
     (if Some h = orderHash s
      then reject (new_Error ''Order was invalidated or cancelled'')
             ((clearTimeout s)\<lparr>orderCompleted := True\<rparr>)
      else s)"

definition onOrderCancelled :: "string \<Rightarrow> tracker \<Rightarrow> tracker" where
  "onOrderCancelled h s =
     (if Some h = orderHash s
      then reject (new_Error ''Order was cancelled'')
             ((clearTimeout s)\<lparr>orderCompleted := True\<rparr>)
      else s)"

fun evm_tracker_step :: "tracker \<Rightarrow> macrotask \<Rightarrow> tracker" where
  "evm_tracker_step s TimeoutFires = timeout_callback s"
| "evm_tracker_step s (Message (OrderFilled h)) = onOrderFilled h s"
| "evm_tracker_step s (Message (OrderInvalid h)) = onOrderInvalid h s"
| "evm_tracker_step s (Message (OrderCreated h)) = s"
| "evm_tracker_step s (Message (OrderFilledPartially h)) = s"
| "evm_tracker_step s (Message (OrderBalanceOrAllowanceChange h)) = s"
| "evm_tracker_step s (Message (OrderCancelled h)) = s"

fun sol_tracker_step :: "tracker \<Rightarrow> macrotask \<Rightarrow> tracker" where
  "sol_tracker_step s TimeoutFires = timeout_callback s"
| "sol_tracker_step s (Message (OrderFilled h)) = onOrderFilled h s"
| "sol_tracker_step s (Message (OrderCancelled h)) = onOrderCancelled h s"
| "sol_tracker_step s (Message (OrderCreated h)) = s"
| "sol_tracker_step s (Message (OrderFilledPartially h)) = s"
| "sol_tracker_step s (Message (OrderBalanceOrAllowanceChange h)) = s"
| "sol_tracker_step s (Message (OrderInvalid h)) = s"

text \<open>
  The history of a tracker: what \<open>main\<close> and the event loop do to it, in order.
  \<open>main\<close> assigns \<open>orderHash\<close>; everything else is a macrotask.
\<close>

datatype tracker_action = AssignOrderHash string | EventLoop macrotask

fun evm_tracker_act :: "tracker \<Rightarrow> tracker_action \<Rightarrow> tracker" where
  "evm_tracker_act s (AssignOrderHash h) = s\<lparr>orderHash := Some h\<rparr>"
| "evm_tracker_act s (EventLoop m) = evm_tracker_step s m"

fun sol_tracker_act :: "tracker \<Rightarrow> tracker_action \<Rightarrow> tracker" where
  "sol_tracker_act s (AssignOrderHash h) = s\<lparr>orderHash := Some h\<rparr>"
| "sol_tracker_act s (EventLoop m) = sol_tracker_step s m"

definition evm_tracker_run :: "tracker_action list \<Rightarrow> tracker" where
  "evm_tracker_run acts = foldl evm_tracker_act initial_tracker acts"

definition sol_tracker_run :: "tracker_action list \<Rightarrow> tracker" where
  "sol_tracker_run acts = foldl sol_tracker_act initial_tracker acts"

section \<open>The WebSocket trackers: main\<close>

text \<open>
  The promise, and with it the timer, exists from step 2 of \<open>main\<close> on, before the
  balance is read, and \<open>main\<close> attaches to it only at \<open>await orderCompletionPromise\<close>.
  So the run of a tracker is modelled with the macrotasks that the event loop runs
  during each \<open>await\<close>: \<open>tasks n\<close> are those run while \<open>main\<close> waits for its \<open>n\<close>-th
  call (counting from 0), in order. When the promise is rejected while nothing is
  attached to it, Node ends the process with status 1 (an unhandled rejection);
  \<open>main\<close> does not resume.
\<close>

datatype tracker_end = Main outcome | UnhandledRejection js_error | Waiting

type_synonym tracker_run = "call list \<times> tracker_end"

type_synonym tracker_state = "call list \<times> tracker"

definition await_call ::
  "(tracker \<Rightarrow> macrotask \<Rightarrow> tracker) \<Rightarrow> (nat \<Rightarrow> macrotask list) \<Rightarrow> call \<Rightarrow> js_error + 'a
     \<Rightarrow> tracker_state \<Rightarrow> ('a \<Rightarrow> tracker_state \<Rightarrow> tracker_run + tracker_state)
     \<Rightarrow> tracker_run + tracker_state" where
  "await_call step tasks c r st k =
     (case st of (t, s) \<Rightarrow>
        let s' = foldl step s (tasks (length t))
        in case orderCompletionPromise s' of
             Rejected e \<Rightarrow> Inl (t @ [c], UnhandledRejection e)
           | _ \<Rightarrow>
               (case r of
                  Inl e \<Rightarrow> Inl (t @ [c], Main (Throw e))
                | Inr v \<Rightarrow> k v (t @ [c], s')))"

text \<open>
  \<^verbatim>\<open>
  try {
    await orderCompletionPromise;
    console.log("\n Order tracking complete!");
  } finally {
    ws.close();
  }
  \<close>
  While \<open>main\<close> waits for the promise the event loop runs the macrotasks that are due,
  and the timer's callback comes at the latest after them. \<open>main\<close> then returns or
  throws as the promise settled; were the promise never to settle, \<open>main\<close> would wait
  for good.
\<close>

definition await_completion ::
  "(tracker \<Rightarrow> macrotask \<Rightarrow> tracker) \<Rightarrow> (nat \<Rightarrow> macrotask list) \<Rightarrow> tracker_state \<Rightarrow> tracker_run" where
  "await_completion step tasks st =
     (case st of (t, s) \<Rightarrow>
        let s' = step (foldl step s (tasks (length t))) TimeoutFires
        in (t, case orderCompletionPromise s' of
                 Resolved \<Rightarrow> Main Return
               | Rejected e \<Rightarrow> Main (Throw e)
               | Unsettled \<Rightarrow> Waiting))"

text \<open>
  The EVM tracker, \<open>main\<close> up to the assignment of \<open>orderHash\<close>. It imports the ethers
  provider. The amount is 1 USDC; the approval goes to the aggregation router.
  \<^verbatim>\<open>
  const orderInfo = await sdk.submitOrder(preparedOrder.order, preparedOrder.quoteId);
  orderHash = orderInfo.orderHash;
  \<close>
\<close>

definition evm_tracker_setup ::
  "evm_lib \<Rightarrow> evm_world \<Rightarrow> (nat \<Rightarrow> macrotask list) \<Rightarrow> tracker_run + tracker_state" where
  "evm_tracker_setup lib w tasks =
     (case loadConfig (env w) of Inl e \<Rightarrow> Inl ([], Main (Throw e)) | Inr config \<Rightarrow>
      case ethers_createProvider lib config of Inl e \<Rightarrow> Inl ([], Main (Throw e)) | Inr provider \<Rightarrow>
      case createFusionSDK lib config (web3Like provider) of
        Inl e \<Rightarrow> Inl ([], Main (Throw e)) | Inr sdk \<Rightarrow>
      await_call evm_tracker_step tasks
        (Lib (getTokenBalance provider USDC (address provider))) (balance_result w)
        ([], initial_tracker) (\<lambda>balance st.
      let amountBigInt = 1000000 in
      if balance < amountBigInt then
        Inl (fst st, Main (Throw (new_Error
               (''Insufficient USDC balance. Have: '' @ formatAmount balance 6
                @ '', Need: '' @ formatAmount amountBigInt 6))))
      else
      await_call evm_tracker_step tasks
        (Lib (getTokenAllowance provider USDC (address provider) AGGREGATION_ROUTER_V6))
        (allowance_result w) st (\<lambda>allowance st.
      let create_and_submit = (\<lambda>st.
            await_call evm_tracker_step tasks GetQuote (quote_result w) st (\<lambda>quote st.
            if recommendedPreset quote \<notin> set (presets quote) then
              Inl (fst st, Main (Throw (new_Error
                     (''Preset '' @ dquote @ recommendedPreset quote @ dquote @ '' not found''))))
            else
            await_call evm_tracker_step tasks CreateOrder (createOrder_result w) st
              (\<lambda>preparedOrder st.
            await_call evm_tracker_step tasks SubmitOrder (submitOrder_result w) st
              (\<lambda>orderInfo st.
            Inr (fst st, (snd st)\<lparr>orderHash := Some orderInfo\<rparr>)))))
      in if allowance < amountBigInt then
           await_call evm_tracker_step tasks
             (Lib (approveToken provider USDC AGGREGATION_ROUTER_V6 amountBigInt))
             (approve_result w) st (\<lambda>txHash st.
           await_call evm_tracker_step tasks
             (Lib (waitForTransaction provider txHash)) (wait_result w) st (\<lambda>_ st.
           create_and_submit st))
         else create_and_submit st)))"

definition evm_tracker_main ::
  "evm_lib \<Rightarrow> evm_world \<Rightarrow> (nat \<Rightarrow> macrotask list) \<Rightarrow> tracker_run" where
  "evm_tracker_main lib w tasks =
     (case evm_tracker_setup lib w tasks of
        Inl r \<Rightarrow> r
      | Inr st \<Rightarrow> await_completion evm_tracker_step tasks st)"

text \<open>
  The entry point of the EVM tracker prints the message:
  \<^verbatim>\<open>
  main()
    .then(() => { console.log("..."); process.exit(0); })
    .catch((error: unknown) => {
      console.error("\n Error:", error instanceof Error ? error.message : error);
      process.exit(1);
    });
  \<close>
  A process whose \<open>main\<close> waits for good does not end (\<open>None\<close>).
\<close>

definition evm_tracker_entry_point :: "tracker_run \<Rightarrow> process_end option" where
  "evm_tracker_entry_point r =
     (case r of
        (t, Main Return) \<Rightarrow> Some (ProcessEnd t [] 0)
      | (t, Main (Throw error)) \<Rightarrow> Some (ProcessEnd t [ErrorLine (message error)] 1)
      | (t, UnhandledRejection e) \<Rightarrow> Some (ProcessEnd t [Uncaught e] 1)
      | (t, Waiting) \<Rightarrow> None)"

definition evm_tracker ::
  "evm_lib \<Rightarrow> evm_world \<Rightarrow> (nat \<Rightarrow> macrotask list) \<Rightarrow> process_end option" where
  "evm_tracker lib w tasks = evm_tracker_entry_point (evm_tracker_main lib w tasks)"

section \<open>The Solana scripts\<close>

text \<open>
  What the outside world answers during one run of a Solana script.
  \<open>sol_createOrder_result\<close> is the hash of the created order (\<open>getOrderHashBase58()\<close>),
  \<open>confirm_result\<close> is \<open>confirmation.value.err\<close> as JSON text, \<open>None\<close> when it is null;
  \<open>signature_feed\<close> tells for the \<open>i\<close>-th call of \<open>getSignatureStatuses\<close> whether the
  status is \<open>"confirmed"\<close>.
\<close>

datatype sol_world = SolWorld
  (sol_env: environment)
  (getBalance_result: "js_error + int")
  (sol_createOrder_result: "js_error + string")
  (blockhash_result: "js_error + unit")
  (sendRaw_result: "js_error + string")
  (confirm_result: "js_error + string option")
  (active_feed: "bool feed")
  (signature_feed: "nat \<Rightarrow> js_error + bool")

text \<open>
  solana/swap-sol-to-jup.ts, \<open>main\<close>. The amount is 0.1 SOL = 100,000,000 lamports and
  the fee reserve 0.01 SOL = 10,000,000 lamports. \<open>formatSol\<close> formats through floating
  point (\<open>(Number(lamports) / LAMPORTS_PER_SOL).toFixed(9)\<close>) and is a parameter.
\<close>

definition sol_swap_main :: "'k solana_lib \<Rightarrow> (int \<Rightarrow> string) \<Rightarrow> sol_world \<Rightarrow> run" where
  "sol_swap_main lib formatSol w =
     (case sol_loadConfig (sol_env w) of Inl e \<Rightarrow> ([], Throw e) | Inr config \<Rightarrow>
      case createSolanaSDK lib config of Inl e \<Rightarrow> ([], Throw e) | Inr sdk_connection_wallet \<Rightarrow>
      perform GetBalance_sol (getBalance_result w) (\<lambda>balance.
      let amount = 100000000;
          estimatedFees = 10000000;
          totalNeeded = amount + estimatedFees in
      if balance < totalNeeded then
        ([], Throw (new_Error (''Insufficient SOL balance. Have: '' @ formatSol balance
                               @ '' SOL, Need: '' @ formatSol totalNeeded
                               @ '' SOL (including fees)'')))
      else
      perform CreateOrder (sol_createOrder_result w) (\<lambda>order.
      perform GetLatestBlockhash (blockhash_result w) (\<lambda>blockhash.
      perform SendRawTransaction (sendRaw_result w) (\<lambda>signature.
      perform ConfirmTransaction (confirm_result w) (\<lambda>err.
      case err of
        Some j \<Rightarrow> ([], Throw (new_Error (''Transaction failed: '' @ j)))
      | None \<Rightarrow> poll_run (sol_poll_loop (active_feed w) 0 0)))))))"

definition sol_swap :: "'k solana_lib \<Rightarrow> (int \<Rightarrow> string) \<Rightarrow> sol_world \<Rightarrow> process_end" where
  "sol_swap lib formatSol w = entry_point (sol_swap_main lib formatSol w)"

text \<open>
  solana/quick-start.ts. At module level the script checks the two variables,
  constructs the connection to the gateway and decodes the key; \<open>main\<close> is:
  \<^verbatim>\<open>
  const order = await sdk.createOrder(Address.NATIVE, new Address("JUP..."), amount, makerAddress);
  ...
  const { blockhash, lastValidBlockHeight } = await connection.getLatestBlockhash();
  ...
  const signature = await connection.sendRawTransaction(tx.serialize());
  for (let i = 0; i < 30; i++) {
    const { value } = await connection.getSignatureStatuses([signature]);
    if (value[0]?.confirmationStatus === "confirmed") { ...; return; }
    await new Promise((r) => setTimeout(r, 2000));
  }
  \<close>
\<close>

function confirm_loop :: "(nat \<Rightarrow> js_error + bool) \<Rightarrow> nat \<Rightarrow> run" where
  "confirm_loop feed i =
     (if i < 30 then
        perform GetSignatureStatuses (feed i) (\<lambda>confirmed.
          if confirmed then ([], Return) else confirm_loop feed (Suc i))
      else ([], Return))"
  by pat_completeness auto
termination
  by (relation "measure (\<lambda>(feed, i). 30 - i)") auto

declare confirm_loop.simps [simp del]

definition sol_quick_start_main :: "sol_world \<Rightarrow> run" where
  "sol_quick_start_main w =
     perform CreateOrder (sol_createOrder_result w) (\<lambda>order.
     perform GetLatestBlockhash (blockhash_result w) (\<lambda>blockhash.
     perform SendRawTransaction (sendRaw_result w) (\<lambda>signature.
     confirm_loop (signature_feed w) 0)))"

definition sol_quick_start :: "'k solana_lib \<Rightarrow> sol_world \<Rightarrow> process_end" where
  "sol_quick_start lib w =
     (if falsy (sol_env w ''API_KEY'') \<or> falsy (sol_env w ''SOLANA_PRIVATE_KEY'') then
        ProcessEnd []
          [Uncaught (new_Error ''Missing API_KEY or SOLANA_PRIVATE_KEY in environment'')] 1
      else
        (case new_Connection lib ''https://api.1inch.com/web3/501'' of
           Some e \<Rightarrow> ProcessEnd [] [Uncaught e] 1
         | None \<Rightarrow>
             (case quick_start_wallet lib (the (sol_env w ''SOLANA_PRIVATE_KEY'')) of
                Inl e \<Rightarrow> ProcessEnd [] [Uncaught e] 1
              | Inr wallet \<Rightarrow> quick_start_entry_point (sol_quick_start_main w))))"

text \<open>
  The Solana WebSocket tracker, \<open>main\<close>. The promise is created after the SDK; the order
  hash is assigned as soon as \<open>createOrder\<close> has returned, before the escrow transaction
  is sent, so the handlers can settle the promise while \<open>main\<close> is still at work:
  \<^verbatim>\<open>
  const order = await sdk.createOrder(SWAP_CONFIG.srcToken, SWAP_CONFIG.dstToken, SWAP_CONFIG.amount, makerAddress);
  orderHash = order.getOrderHashBase58();
  ...
  const { blockhash, lastValidBlockHeight } = await connection.getLatestBlockhash();
  ...
  const signature = await connection.sendRawTransaction(tx.serialize(), { ... });
  const confirmation = await connection.confirmTransaction({ signature, blockhash, lastValidBlockHeight }, "confirmed");
  if (confirmation.value.err) {
    ws.close();
    throw new Error(`Transaction failed: ${JSON.stringify(confirmation.value.err)}`);
  }
  \<close>
\<close>

definition sol_tracker_create ::
  "'k solana_lib \<Rightarrow> (int \<Rightarrow> string) \<Rightarrow> sol_world \<Rightarrow> (nat \<Rightarrow> macrotask list)
     \<Rightarrow> tracker_run + tracker_state" where
  "sol_tracker_create lib formatSol w tasks =
     (case sol_loadConfig (sol_env w) of Inl e \<Rightarrow> Inl ([], Main (Throw e)) | Inr config \<Rightarrow>
      case createSolanaSDK lib config of
        Inl e \<Rightarrow> Inl ([], Main (Throw e)) | Inr sdk_connection_wallet \<Rightarrow>
      await_call sol_tracker_step tasks GetBalance_sol (getBalance_result w)
        ([], initial_tracker) (\<lambda>balance st.
      let amount = 100000000;
          estimatedFees = 10000000;
          totalNeeded = amount + estimatedFees in
      if balance < totalNeeded then
        Inl (fst st, Main (Throw (new_Error
               (''Insufficient SOL balance. Have: '' @ formatSol balance
                @ '' SOL, Need: '' @ formatSol totalNeeded @ '' SOL (including fees)''))))
      else
      await_call sol_tracker_step tasks CreateOrder (sol_createOrder_result w) st (\<lambda>order st.
      Inr (fst st, (snd st)\<lparr>orderHash := Some order\<rparr>))))"

definition sol_tracker_escrow ::
  "sol_world \<Rightarrow> (nat \<Rightarrow> macrotask list) \<Rightarrow> tracker_state \<Rightarrow> tracker_run + tracker_state" where
  "sol_tracker_escrow w tasks st =
     await_call sol_tracker_step tasks GetLatestBlockhash (blockhash_result w) st
       (\<lambda>blockhash st.
     await_call sol_tracker_step tasks SendRawTransaction (sendRaw_result w) st
       (\<lambda>signature st.
     await_call sol_tracker_step tasks ConfirmTransaction (confirm_result w) st
       (\<lambda>err st.
     case err of
       Some j \<Rightarrow> Inl (fst st, Main (Throw (new_Error (''Transaction failed: '' @ j))))
     | None \<Rightarrow> Inr st)))"

definition sol_tracker_main ::
  "'k solana_lib \<Rightarrow> (int \<Rightarrow> string) \<Rightarrow> sol_world \<Rightarrow> (nat \<Rightarrow> macrotask list) \<Rightarrow> tracker_run" where
  "sol_tracker_main lib formatSol w tasks =
     (case sol_tracker_create lib formatSol w tasks of
        Inl r \<Rightarrow> r
      | Inr st \<Rightarrow>
          (case sol_tracker_escrow w tasks st of
             Inl r \<Rightarrow> r
           | Inr st' \<Rightarrow> await_completion sol_tracker_step tasks st'))"

text \<open>
  The entry point of the Solana tracker is that of the polling scripts (it prints the
  response payload of an API error).
\<close>

definition sol_tracker_entry_point :: "tracker_run \<Rightarrow> process_end option" where
  "sol_tracker_entry_point r =
     (case r of
        (t, Main out) \<Rightarrow> Some (entry_point (t, out))
      | (t, UnhandledRejection e) \<Rightarrow> Some (ProcessEnd t [Uncaught e] 1)
      | (t, Waiting) \<Rightarrow> None)"

definition sol_tracker ::
  "'k solana_lib \<Rightarrow> (int \<Rightarrow> string) \<Rightarrow> sol_world \<Rightarrow> (nat \<Rightarrow> macrotask list)
     \<Rightarrow> process_end option" where
  "sol_tracker lib formatSol w tasks =
     sol_tracker_entry_point (sol_tracker_main lib formatSol w tasks)"

section \<open>The Solana cancel-order script\<close>

text \<open>
  What the outside world answers during one run of the cancel-order script: the answers
  to \<open>createOrderForDemo\<close> (those of a \<open>sol_world\<close>), then those to the verification loop,
  the cancel transaction and the final balance read (the final status query sits in a
  \<open>try\<close>/\<open>catch\<close> of its own and its answer is only logged).

  The script calls \<open>sleep(retryDelay)\<close> inside the \<open>try\<close> block of the verification loop,
  and its import from the utilities is
  \<^verbatim>\<open>
  import { loadConfig, createSolanaSDK, formatSol } from "../utils/connection.js";
  \<close>
  What evaluating \<open>sleep(retryDelay)\<close> gives there (a \<open>ReferenceError\<close> unless the name is
  bound by other means) is a parameter, \<open>sleep_result\<close>.
\<close>

datatype cancel_world = CancelWorld
  (create_world: sol_world)
  (sleep_result: "js_error + unit")
  (verify_feed: "nat \<Rightarrow> js_error + bool")
  (cancel_blockhash_result: "js_error + unit")
  (cancel_sendRaw_result: "js_error + string")
  (cancel_confirm_result: "js_error + string option")
  (final_balance_result: "js_error + int")

text \<open>
  solana/cancel-order/create-order-for-demo.ts: 0.1 SOL and a fee reserve of 0.02 SOL.
  \<^verbatim>\<open>
  const balance = await connection.getBalance(wallet.publicKey);
  const estimatedFees = BigInt(0.02 * LAMPORTS_PER_SOL);
  const totalNeeded = ORDER_CONFIG.amount + estimatedFees;
  if (BigInt(balance) < totalNeeded) {
    throw new Error(`Insufficient balance. Need at least ${formatSol(totalNeeded)} SOL`);
  }
  const order = await sdk.createOrder(...);
  const orderHash = order.getOrderHashBase58();
  ...
  const { blockhash, lastValidBlockHeight } = await connection.getLatestBlockhash();
  ...
  const createSig = await connection.sendRawTransaction(createTx.serialize());
  const createConfirm = await connection.confirmTransaction({ ... }, "confirmed");
  if (createConfirm.value.err) {
    throw new Error(`Create failed: ${JSON.stringify(createConfirm.value.err)}`);
  }
  return { order, orderHash };
  \<close>
  The continuation \<open>k\<close> is what the caller does with the returned order hash.
\<close>

definition createOrderForDemo :: "(int \<Rightarrow> string) \<Rightarrow> sol_world \<Rightarrow> (string \<Rightarrow> run) \<Rightarrow> run" where
  "createOrderForDemo formatSol w k =
     perform GetBalance_sol (getBalance_result w) (\<lambda>balance.
     let estimatedFees = 20000000;
         totalNeeded = 100000000 + estimatedFees in
     if balance < totalNeeded then
       ([], Throw (new_Error (''Insufficient balance. Need at least '' @ formatSol totalNeeded
                              @ '' SOL'')))
     else
     perform CreateOrder (sol_createOrder_result w) (\<lambda>orderHash.
     perform GetLatestBlockhash (blockhash_result w) (\<lambda>blockhash.
     perform SendRawTransaction (sendRaw_result w) (\<lambda>createSig.
     perform ConfirmTransaction (confirm_result w) (\<lambda>err.
     case err of
       Some j \<Rightarrow> ([], Throw (new_Error (''Create failed: '' @ j)))
     | None \<Rightarrow> k orderHash)))))"

text \<open>
  The verification loop of the cancel-order script:
  \<^verbatim>\<open>
  for (let i = 0; i < maxRetries; i++) {        // maxRetries = 5
    try {
      await sleep(retryDelay);
      status = await sdk.getOrderStatus(orderHash);
      if (status.isActive()) { ...; orderVerified = true; break; }
      else { console.log("   Order is not active - may have been filled already!"); return; }
    } catch (error) { ... log ... }
  }
  \<close>
  \<open>Returned\<close>: \<open>main\<close> returns from inside the loop; \<open>Continue\<close>: the script goes on to
  cancel the order.
\<close>

function verify_loop :: "cancel_world \<Rightarrow> nat \<Rightarrow> call list \<times> loop_step" where
  "verify_loop w i =
     (if i < 5 then
        (case sleep_result w of
           Inl e \<Rightarrow> verify_loop w (Suc i)
         | Inr _ \<Rightarrow>
             (case verify_feed w i of
                Inl e \<Rightarrow> (case verify_loop w (Suc i) of (t, l) \<Rightarrow> (GetOrderStatus # t, l))
              | Inr isActive \<Rightarrow>
                  if isActive then ([GetOrderStatus], Continue)
                  else ([GetOrderStatus], Returned)))
      else ([], Continue))"
  by pat_completeness auto
termination
  by (relation "measure (\<lambda>(w, i). 5 - i)") auto

declare verify_loop.simps [simp del]

text \<open>
  The rest of \<open>main\<close>: the cancel transaction, the final status query inside
  \<open>try\<close>/\<open>catch\<close>, and the final balance read.
  \<^verbatim>\<open>
  const { blockhash: cancelBlockhash, lastValidBlockHeight: cancelHeight } = await connection.getLatestBlockhash();
  ...
  const cancelSig = await connection.sendRawTransaction(cancelTx.serialize());
  const cancelConfirm = await connection.confirmTransaction({ ... }, "confirmed");
  if (cancelConfirm.value.err) {
    throw new Error(`Cancel failed: ${JSON.stringify(cancelConfirm.value.err)}`);
  }
  try {
    const finalStatus = await sdk.getOrderStatus(orderHash);
    ...
  } catch (error) { ... log ... }
  const finalBalance = await connection.getBalance(wallet.publicKey);
  \<close>
\<close>

definition cancel_and_verify :: "cancel_world \<Rightarrow> run" where
  "cancel_and_verify w =
     perform GetLatestBlockhash (cancel_blockhash_result w) (\<lambda>cancelBlockhash.
     perform SendRawTransaction (cancel_sendRaw_result w) (\<lambda>cancelSig.
     perform ConfirmTransaction (cancel_confirm_result w) (\<lambda>err.
     case err of
       Some j \<Rightarrow> ([], Throw (new_Error (''Cancel failed: '' @ j)))
     | None \<Rightarrow>
         (case perform GetBalance_sol (final_balance_result w) (\<lambda>finalBalance. ([], Return)) of
            (t, out) \<Rightarrow> (GetOrderStatus # t, out)))))"

definition cancel_order_main :: "'k solana_lib \<Rightarrow> (int \<Rightarrow> string) \<Rightarrow> cancel_world \<Rightarrow> run" where
  "cancel_order_main lib formatSol w =
     (case sol_loadConfig (sol_env (create_world w)) of
        Inl e \<Rightarrow> ([], Throw e) | Inr config \<Rightarrow>
      case createSolanaSDK lib config of
        Inl e \<Rightarrow> ([], Throw e) | Inr sdk_connection_wallet \<Rightarrow>
      createOrderForDemo formatSol (create_world w) (\<lambda>orderHash.
      case verify_loop w 0 of
        (t, Returned) \<Rightarrow> (t, Return)
      | (t, Continue) \<Rightarrow> and_then (t, Return) (cancel_and_verify w)))"

definition cancel_order :: "'k solana_lib \<Rightarrow> (int \<Rightarrow> string) \<Rightarrow> cancel_world \<Rightarrow> process_end" where
  "cancel_order lib formatSol w = entry_point (cancel_order_main lib formatSol w)"

section \<open>Notions used to state the claims\<close>

subsection \<open>What a library call asks of the chain\<close>

text \<open>
  The request a library call stands for, whichever library makes it: a balance read, a
  read of a contract function, a transaction that calls a contract function from an
  account, the wait for a receipt, or a plain call with \<open>to\<close>, \<open>data\<close> and further
  fields. An ethers contract method sends a transaction when the ABI does not declare
  it \<open>view\<close> and the contract is connected to a wallet; on a provider it can only read.
\<close>

datatype rpc_request =
    GetBalance string
  | ReadContract string string "abi_arg list"
  | WriteContract string string string "abi_arg list"
  | WaitForReceipt string
  | Call string string "(string \<times> string) list"

fun request_of :: "lib_call \<Rightarrow> rpc_request" where
  "request_of (Ethers_getBalance runner a) = GetBalance a"
| "request_of (Ethers_Contract (JsonRpcProvider rpc) token name args) = ReadContract token name args"
| "request_of (Ethers_Contract (Wallet account rpc) token name args) =
     (if map_of ERC20_ABI name = Some nonpayable then WriteContract account token name args
      else ReadContract token name args)"
| "request_of (Ethers_waitForTransaction runner txHash) = WaitForReceipt txHash"
| "request_of (Ethers_call runner transactionConfig) =
     Call (tx_to transactionConfig) (tx_data transactionConfig) (tx_rest transactionConfig)"
| "request_of (Viem_getBalance client a) = GetBalance a"
| "request_of (Viem_readContract client token name args) = ReadContract token name args"
| "request_of (Viem_writeContract client account chain token name args) =
     WriteContract account token name args"
| "request_of (Viem_waitForTransactionReceipt client txHash) = WaitForReceipt txHash"
| "request_of (Viem_call client to_v data_v) = Call to_v data_v []"

fun runner_transport :: "ethers_runner \<Rightarrow> transport" where
  "runner_transport (JsonRpcProvider rpc) = rpc"
| "runner_transport (Wallet account rpc) = rpc"

fun client_http :: "viem_client \<Rightarrow> transport" where
  "client_http (PublicClient chain http) = http"
| "client_http (WalletClient account chain http) = http"

fun client_pin :: "viem_client \<Rightarrow> viem_chain property" where
  "client_pin (PublicClient chain http) = chain"
| "client_pin (WalletClient account chain http) = chain"

text \<open>The transport a library call goes over, and the chain it is pinned to, if any.\<close>

fun transport_of :: "lib_call \<Rightarrow> transport" where
  "transport_of (Ethers_getBalance runner a) = runner_transport runner"
| "transport_of (Ethers_Contract runner token name args) = runner_transport runner"
| "transport_of (Ethers_waitForTransaction runner txHash) = runner_transport runner"
| "transport_of (Ethers_call runner transactionConfig) = runner_transport runner"
| "transport_of (Viem_getBalance client a) = client_http client"
| "transport_of (Viem_readContract client token name args) = client_http client"
| "transport_of (Viem_writeContract client account chain token name args) = client_http client"
| "transport_of (Viem_waitForTransactionReceipt client txHash) = client_http client"
| "transport_of (Viem_call client to_v data_v) = client_http client"

fun pinned_chain :: "lib_call \<Rightarrow> viem_chain property option" where
  "pinned_chain (Ethers_getBalance runner a) = None"
| "pinned_chain (Ethers_Contract runner token name args) = None"
| "pinned_chain (Ethers_waitForTransaction runner txHash) = None"
| "pinned_chain (Ethers_call runner transactionConfig) = None"
| "pinned_chain (Viem_getBalance client a) = Some (client_pin client)"
| "pinned_chain (Viem_readContract client token name args) = Some (client_pin client)"
| "pinned_chain (Viem_writeContract client account chain token name args) = Some chain"
| "pinned_chain (Viem_waitForTransactionReceipt client txHash) = Some (client_pin client)"
| "pinned_chain (Viem_call client to_v data_v) = Some (client_pin client)"

text \<open>
  Two calls of a run are the same up to the library when they are the same call, or
  library calls that make the same request over the same transport.
\<close>

fun same_call :: "call \<Rightarrow> call \<Rightarrow> bool" where
  "same_call (Lib a) (Lib b) \<longleftrightarrow> request_of a = request_of b \<and> transport_of a = transport_of b"
| "same_call c d \<longleftrightarrow> c = d"

text \<open>The calls that spend, lock or give control over funds.\<close>

fun sends_transaction :: "lib_call \<Rightarrow> bool" where
  "sends_transaction c =
     (case request_of c of WriteContract account token name args \<Rightarrow> True | _ \<Rightarrow> False)"

fun moves_funds :: "call \<Rightarrow> bool" where
  "moves_funds (Lib c) = sends_transaction c"
| "moves_funds SendTransaction = True"
| "moves_funds SubmitOrder = True"
| "moves_funds SubmitNativeOrder = True"
| "moves_funds SendRawTransaction = True"
| "moves_funds c = False"

subsection \<open>Runs\<close>

text \<open>The number of \<open>getOrderStatus\<close> calls a run made.\<close>

definition status_queries :: "call list \<Rightarrow> nat" where
  "status_queries t = count_list t GetOrderStatus"

text \<open>
  A run ends by status when it returns exactly if its last status query reported
  \<open>Filled\<close>.
\<close>

definition ends_by_status :: "order_status feed \<Rightarrow> run \<Rightarrow> bool" where
  "ends_by_status feed r \<longleftrightarrow>
     (snd r = Return \<longleftrightarrow>
        0 < status_queries (fst r) \<and> fst (feed (status_queries (fst r) - 1)) = Inr Filled)"

text \<open>
  The responses after which the EVM loop sleeps and polls again: a status other than
  \<open>Filled\<close>, \<open>Expired\<close>, \<open>Cancelled\<close>, or a thrown value that is not an \<open>Error\<close> whose
  message contains \<open>Order\<close>.
\<close>

definition retried :: "js_error + order_status \<Rightarrow> bool" where
  "retried r =
     (case r of
        Inr status \<Rightarrow> status \<noteq> Filled \<and> status \<noteq> Expired \<and> status \<noteq> Cancelled
      | Inl error \<Rightarrow> \<not> (instanceof_Error error \<and> sublist ''Order'' (message error)))"

text \<open>
  A Solana script that needs \<open>totalNeeded\<close> lamports got its escrow on chain:
  configuration, wallet, balance check, order creation and the confirmed escrow
  transaction all went through.
\<close>

definition escrow_created :: "int \<Rightarrow> 'k solana_lib \<Rightarrow> sol_world \<Rightarrow> bool" where
  "escrow_created totalNeeded lib w \<longleftrightarrow>
     (case sol_loadConfig (sol_env w) of
        Inl e \<Rightarrow> False
      | Inr config \<Rightarrow> \<not> isl (createSolanaSDK lib config))
     \<and> (case getBalance_result w of Inl e \<Rightarrow> False | Inr balance \<Rightarrow> totalNeeded \<le> balance)
     \<and> \<not> isl (sol_createOrder_result w)
     \<and> \<not> isl (blockhash_result w)
     \<and> \<not> isl (sendRaw_result w)
     \<and> confirm_result w = Inr None"

text \<open>
  The cancel-order script: the verification loop finds the order no longer active
  (\<open>sleep\<close> works there, and the first status query that does not throw, among the five,
  reports an inactive order); the cancel transaction is confirmed and the final balance
  is read.
\<close>

definition found_inactive :: "cancel_world \<Rightarrow> bool" where
  "found_inactive w \<longleftrightarrow>
     \<not> isl (sleep_result w)
     \<and> (\<exists>i<5. verify_feed w i = Inr False \<and> (\<forall>j<i. isl (verify_feed w j)))"

definition cancel_confirmed :: "cancel_world \<Rightarrow> bool" where
  "cancel_confirmed w \<longleftrightarrow>
     \<not> isl (cancel_blockhash_result w)
     \<and> \<not> isl (cancel_sendRaw_result w)
     \<and> cancel_confirm_result w = Inr None
     \<and> \<not> isl (final_balance_result w)"

text \<open>
  What settles the promise of a tracker that holds the order hash \<open>h\<close>: the timer, a fill
  of \<open>h\<close>, and an invalidation (EVM) or a cancellation (Solana) of \<open>h\<close>. The order is
  filled first when the first such macrotask is the fill.
\<close>

definition evm_terminal :: "string \<Rightarrow> macrotask \<Rightarrow> bool" where
  "evm_terminal h m \<longleftrightarrow>
     m = TimeoutFires \<or> m = Message (OrderFilled h) \<or> m = Message (OrderInvalid h)"

definition sol_terminal :: "string \<Rightarrow> macrotask \<Rightarrow> bool" where
  "sol_terminal h m \<longleftrightarrow>
     m = TimeoutFires \<or> m = Message (OrderFilled h) \<or> m = Message (OrderCancelled h)"

definition filled_first :: "(string \<Rightarrow> macrotask \<Rightarrow> bool) \<Rightarrow> string \<Rightarrow> macrotask list \<Rightarrow> bool" where
  "filled_first terminal h ms \<longleftrightarrow> find (terminal h) ms = Some (Message (OrderFilled h))"

text \<open>
  A process stopped at the balance check: it ended with status 1, made at most one
  call (the balance read) and none that moves funds, and, when it got as far as the
  balance read, the line it logged is the given insufficient-balance message.
\<close>

definition stops_at_balance_check :: "process_end \<Rightarrow> string \<Rightarrow> bool" where
  "stops_at_balance_check r msg \<longleftrightarrow>
     exit_code r = 1
     \<and> length (calls r) \<le> 1
     \<and> \<not> list_ex moves_funds (calls r)
     \<and> (length (calls r) = 1 \<longrightarrow> stderr r = [ErrorLine msg])"

text \<open>
  The key \<open>createWallet\<close> takes from a configured string, as the specification words
  it: the base58 decoding when that has 64 bytes, otherwise the base64 decoding when
  that has 64 bytes.
\<close>

definition decoded_secret_key :: "'k solana_lib \<Rightarrow> string \<Rightarrow> bytes option" where
  "decoded_secret_key lib pk =
     (if (case bs58_decode lib pk of Some k \<Rightarrow> length k = 64 | None \<Rightarrow> False)
      then bs58_decode lib pk
      else if length (base64_decode lib pk) = 64 then Some (base64_decode lib pk)
      else None)"

section \<open>Concrete inputs used in the examples below\<close>

text \<open>
  Stand-ins for the libraries' key handling: a key is accepted when it has 66
  characters (\<open>0x\<close> and 64 hexadecimal digits), and its address is made of its first 42
  characters.
\<close>

definition invalid_private_key :: js_error where
  "invalid_private_key = JsError True ''invalid private key'' None"

definition demo_evm_lib :: evm_lib where
  "demo_evm_lib =
     \<lparr>new_Wallet = (\<lambda>k. if length k = 66 then Inr (take 42 k) else Inl invalid_private_key),
      privateKeyToAccount =
        (\<lambda>k. if length k = 66 then Inr (take 42 k) else Inl invalid_private_key),
      new_PrivateKeyProviderConnector =
        (\<lambda>k. if length k = 66 then None else Some invalid_private_key)\<rparr>"

definition demo_key :: string where
  "demo_key = ''0x'' @ replicate 64 (CHR ''1'')"

definition demo_address :: string where
  "demo_address = ''0x'' @ replicate 40 (CHR ''1'')"

definition gateway_config :: Config where
  "gateway_config = \<lparr>apiKey = ''KEY'', privateKey = demo_key,
                      rpcUrl = ''https://api.1inch.com/web3/1'', networkId = ''1''\<rparr>"

definition other_config :: Config where
  "other_config = \<lparr>apiKey = ''KEY'', privateKey = demo_key,
                    rpcUrl = ''https://rpc.example.org'', networkId = ''1''\<rparr>"

definition unichain_config :: Config where
  "unichain_config = \<lparr>apiKey = ''KEY'', privateKey = demo_key,
                       rpcUrl = ''https://api.1inch.com/web3/130'', networkId = ''130''\<rparr>"

text \<open>
  Environments: the two required variables only (network 1 and the gateway URL by
  default), the same with \<open>EVM_NETWORK_ID=130\<close> (Unichain), and one with a key that is
  too short.
\<close>

definition demo_env :: environment where
  "demo_env = map_of [(''API_KEY'', ''KEY''), (''EVM_PRIVATE_KEY'', demo_key)]"

definition unichain_env :: environment where
  "unichain_env =
     map_of [(''API_KEY'', ''KEY''), (''EVM_PRIVATE_KEY'', demo_key), (''EVM_NETWORK_ID'', ''130'')]"

definition short_key_env :: environment where
  "short_key_env = map_of [(''API_KEY'', ''KEY''), (''EVM_PRIVATE_KEY'', ''0x01'')]"

text \<open>
  A world in which every call succeeds: the environment, the balance, the allowance and
  the status feed vary.
\<close>

definition demo_world :: "environment \<Rightarrow> int \<Rightarrow> int \<Rightarrow> order_status feed \<Rightarrow> evm_world" where
  "demo_world e balance allowance feed =
     EvmWorld e (Inr balance) (Inr allowance) (Inr ''0xapprove'') (Inr ())
       (Inr (Quote ''fast'' [''fast'', ''medium''])) (Inr ()) (Inr ''0xorder'')
       (Inr ''0xescrow'') (Inr ()) feed"

text \<open>Status feeds; every call takes 200 ms.\<close>

definition filled_feed :: "order_status feed" where
  "filled_feed = (\<lambda>i. (Inr Filled, 200))"

definition gateway_error_then_filled_feed :: "order_status feed" where
  "gateway_error_then_filled_feed =
     (\<lambda>i. if i = 0 then (Inl (JsError True ''Request failed with status code 502'' None), 200)
          else (Inr Filled, 200))"

definition order_not_found_then_filled_feed :: "order_status feed" where
  "order_not_found_then_filled_feed =
     (\<lambda>i. if i = 0 then (Inl (JsError True ''Order not found'' None), 200)
          else (Inr Filled, 200))"

text \<open>
  EVM worlds in which the quote request, or the wait for the approval transaction,
  fails with an API error that carries a response payload.
\<close>

definition api_error_400 :: js_error where
  "api_error_400 = JsError True ''Request failed with status code 400'' (Some ''{}'')"

definition quote_fails_world :: "int \<Rightarrow> int \<Rightarrow> evm_world" where
  "quote_fails_world balance allowance =
     EvmWorld demo_env (Inr balance) (Inr allowance) (Inr ''0xapprove'') (Inr ())
       (Inl api_error_400) (Inr ()) (Inr ''0xorder'') (Inr ''0xescrow'') (Inr ())
       filled_feed"

definition wait_fails_world :: "int \<Rightarrow> int \<Rightarrow> evm_world" where
  "wait_fails_world balance allowance =
     EvmWorld demo_env (Inr balance) (Inr allowance) (Inr ''0xapprove'') (Inl api_error_400)
       (Inr (Quote ''fast'' [''fast'', ''medium''])) (Inr ()) (Inr ''0xorder'')
       (Inr ''0xescrow'') (Inr ()) filled_feed"



text \<open>
  Solana: an environment with a base58 key, a world in which every call succeeds and the
  escrow transaction is confirmed, and a status feed on which the order stays active
  for good (each query takes one second).
\<close>

definition demo_sol_env :: environment where
  "demo_sol_env = map_of [(''API_KEY'', ''KEY''), (''SOLANA_PRIVATE_KEY'', ''key58'')]"

definition demo_sol_world :: "int \<Rightarrow> bool feed \<Rightarrow> sol_world" where
  "demo_sol_world balance feed =
     SolWorld demo_sol_env (Inr balance) (Inr ''orderhash'') (Inr ()) (Inr ''signature'')
       (Inr None) feed (\<lambda>i. Inr True)"

definition still_active_feed :: "bool feed" where
  "still_active_feed = (\<lambda>i. (Inr True, 1000))"

text \<open>
  A world for the cancel-order script in which every call succeeds and the order is
  active at the first status query; \<open>sleep\<close> either works or is unbound.
\<close>

definition sleep_is_not_defined :: js_error where
  "sleep_is_not_defined = JsError True ''sleep is not defined'' None"

definition demo_cancel_world :: "int \<Rightarrow> js_error + unit \<Rightarrow> cancel_world" where
  "demo_cancel_world balance sleep_v =
     CancelWorld (demo_sol_world balance still_active_feed) sleep_v (\<lambda>i. Inr True)
       (Inr ()) (Inr ''cancelsig'') (Inr None) (Inr balance)"

text \<open>
  Macrotasks for the trackers: nothing happens during the calls of \<open>main\<close>, and while
  \<open>main\<close> waits for the promise (after \<open>n\<close> calls) the given ones are run.
\<close>

definition quiet_until :: "nat \<Rightarrow> macrotask list \<Rightarrow> nat \<Rightarrow> macrotask list" where
  "quiet_until n ms = (\<lambda>i. if i = n then ms else [])"

text \<open>The transport of both clients under the default configuration.\<close>

definition gateway_rpc :: transport where
  "gateway_rpc = \<lparr>url = ''https://api.1inch.com/web3/1'', authorization = Some ''Bearer KEY''\<rparr>"

section \<open>Properties of the string primitives\<close>

lemma startsWith_prefix: "startsWith s pat \<longleftrightarrow> prefix pat s"
  by (induction s pat rule: startsWith.induct) auto

lemma str_includes_sublist: "str_includes s pat \<longleftrightarrow> sublist pat s"
proof (induction s)
  case Nil
  show ?case by (simp add: startsWith_prefix)
next
  case (Cons x xs)
  then show ?case by (simp add: startsWith_prefix sublist_Cons_right)
qed

lemma length_nat_toString_le: "0 < d \<Longrightarrow> r < 10 ^ d \<Longrightarrow> length (nat_toString r) \<le> d"
proof (induction d arbitrary: r)
  case 0
  then show ?case by simp
next
  case (Suc d)
  show ?case
  proof (cases "r < 10")
    case True
    then show ?thesis by (simp add: nat_toString.simps [of r])
  next
    case False
    then have d: "0 < d" using Suc.prems by (cases d) auto
    have "r div 10 < 10 ^ d" using Suc.prems by (simp add: less_mult_imp_div_less mult.commute)
    from Suc.IH [OF d this] False show ?thesis by (simp add: nat_toString.simps [of r])
  qed
qed

lemma digit_char_0: "digit_char 0 = CHR ''0''"
  by (simp add: digit_char_def)

lemma fixed_digits_zero: "fixed_digits d 0 = replicate d (CHR ''0'')"
  by (induction d) (simp_all add: digit_char_0 replicate_append_same)

lemma length_fixed_digits [simp]: "length (fixed_digits d r) = d"
  by (induction d arbitrary: r) simp_all

lemma padStart_fixed_digits:
  "0 < d \<Longrightarrow> r < 10 ^ d \<Longrightarrow> padStart (nat_toString r) d (CHR ''0'') = fixed_digits d r"
proof (induction d arbitrary: r)
  case 0
  then show ?case by simp
next
  case (Suc d)
  show ?case
  proof (cases "r < 10")
    case True
    then show ?thesis
      by (simp add: nat_toString.simps [of r] padStart_def fixed_digits_zero)
  next
    case False
    then have d: "0 < d" using Suc.prems by (cases d) auto
    have lt: "r div 10 < 10 ^ d" using Suc.prems by (simp add: less_mult_imp_div_less mult.commute)
    have len: "length (nat_toString (r div 10)) \<le> d" by (rule length_nat_toString_le [OF d lt])
    have "padStart (nat_toString r) (Suc d) (CHR ''0'')
            = padStart (nat_toString (r div 10)) d (CHR ''0'') @ [digit_char (r mod 10)]"
      using False len by (simp add: nat_toString.simps [of r] padStart_def Suc_diff_le)
    with Suc.IH [OF d lt] show ?thesis by simp
  qed
qed

lemma nat_toString_numeral:
  "nat_toString (numeral k) =
     (if (numeral k :: nat) < 10 then [digit_char (numeral k)]
      else nat_toString (numeral k div 10) @ [digit_char (numeral k mod 10)])"
  by (rule nat_toString.simps)

lemma nat_toString_0: "nat_toString 0 = ''0''"
  by (simp add: nat_toString.simps [of 0] digit_char_def)

lemma nat_toString_1: "nat_toString (Suc 0) = ''1''"
  by (subst nat_toString.simps) (simp add: digit_char_def)

lemma fixed_digits_numeral:
  "fixed_digits (numeral k) r = fixed_digits (pred_numeral k) (r div 10) @ [digit_char (r mod 10)]"
proof -
  have "fixed_digits (Suc (pred_numeral k)) r
          = fixed_digits (pred_numeral k) (r div 10) @ [digit_char (r mod 10)]"
    by (rule fixed_digits.simps)
  then show ?thesis by (simp only: numeral_eq_Suc [symmetric])
qed

lemma fixed_digits_1: "fixed_digits 1 r = [digit_char (r mod 10)]"
  by simp

lemmas eval_toString = nat_toString_numeral nat_toString_0 nat_toString_1 digit_char_def
  fixed_digits_numeral fixed_digits_1

lemma bigint_div_nonneg: "0 \<le> a \<Longrightarrow> 0 < b \<Longrightarrow> bigint_div a b = a div b"
  by (cases "a = 0") (simp_all add: bigint_div_def)

lemma bigint_rem_nonneg: "0 \<le> a \<Longrightarrow> 0 < b \<Longrightarrow> bigint_rem a b = a mod b"
  by (cases "a = 0") (simp_all add: bigint_rem_def)

lemma bigint_toString_nonneg: "0 \<le> i \<Longrightarrow> bigint_toString i = nat_toString (nat i)"
  by (simp add: bigint_toString_def)

lemma formatAmount_nonneg:
  assumes "0 \<le> amount"
  shows "formatAmount amount decimals =
           nat_toString (nat (amount div 10 ^ decimals)) @ ''.'' @
           take 6 (padStart (nat_toString (nat (amount mod 10 ^ decimals))) decimals (CHR ''0''))"
proof -
  have p: "(0::int) < 10 ^ decimals" by simp
  have q: "0 \<le> amount div 10 ^ decimals" using assms by (simp add: pos_imp_zdiv_nonneg_iff)
  have r: "0 \<le> amount mod 10 ^ decimals" by simp
  show ?thesis
    unfolding formatAmount_def Let_def slice0_def
    by (simp only: bigint_div_nonneg [OF assms p] bigint_rem_nonneg [OF assms p]
          bigint_toString_nonneg [OF q] bigint_toString_nonneg [OF r])
qed

lemma formatTokenAmount_eq: "formatTokenAmount amount decimals = formatAmount amount decimals"
  by (simp add: formatTokenAmount_def formatAmount_def)

lemma frac_digits:
  assumes "0 < decimals"
  shows "take 6 (padStart (nat_toString (nat (amount mod 10 ^ decimals))) decimals (CHR ''0''))
         = take (min 6 decimals) (fixed_digits decimals (nat (amount mod 10 ^ decimals)))"
proof -
  have "amount mod 10 ^ decimals < 10 ^ decimals" by simp
  then have "nat (amount mod 10 ^ decimals) < 10 ^ decimals"
    by (simp add: nat_less_iff)
  from padStart_fixed_digits [OF assms this] show ?thesis by (simp add: min_def)
qed

section \<open>C8: the format of formatAmount and formatTokenAmount\<close>

text \<open>
  C8. For a non-negative amount, \<open>formatAmount\<close> (and the identical
  \<open>formatTokenAmount\<close>) returns the decimal numeral of \<open>amount div 10 ^ decimals\<close>, a
  dot, and the first \<open>min 6 decimals\<close> digits of the remainder written with exactly
  \<open>decimals\<close> digits: it truncates, never rounds, and gives fewer than six fractional
  digits when \<open>decimals < 6\<close>. This holds for \<open>decimals \<ge> 1\<close>. For \<open>decimals = 0\<close> the
  remainder \<open>0n\<close> prints as \<open>"0"\<close>, \<open>padStart(0, "0")\<close> leaves it alone, and the result
  ends in \<open>".0"\<close>, not in a bare dot.
\<close>

theorem formatAmount_format:
  assumes "0 \<le> amount"
  shows "formatAmount amount decimals =
           (if decimals = 0 then nat_toString (nat amount) @ ''.0''
            else spec_formatAmount amount decimals)
         \<and> formatTokenAmount amount decimals = formatAmount amount decimals"
proof (cases "decimals = 0")
  case True
  then show ?thesis
    by (simp add: formatAmount_nonneg [OF assms] padStart_def nat_toString_0 formatTokenAmount_eq)
next
  case False
  then show ?thesis
    by (simp add: formatAmount_nonneg [OF assms] frac_digits spec_formatAmount_def formatTokenAmount_eq)
qed

text \<open>
  1.999999999 with nine decimals is cut to \<open>1.999999\<close>; 19.99999 with five decimals
  keeps its five digits.
\<close>

theorem formatAmount_format_witness:
  "(0::int) \<le> 1999999999 \<and> formatAmount 1999999999 9 = ''1.999999''
   \<and> formatAmount 1999999 5 = ''19.99999'' \<and> formatTokenAmount 7 0 = ''7.0''"
  using formatAmount_format [of 1999999999 9] formatAmount_format [of 1999999 5]
    formatAmount_format [of 7 0]
  by (simp add: spec_formatAmount_def eval_toString)

text \<open>
  The claim as stated fails at \<open>decimals = 0\<close>: \<open>formatAmount(5n, 0)\<close> is \<open>"5.0"\<close>.
\<close>

theorem formatAmount_zero_decimals_counterexample:
  "formatAmount 5 0 \<noteq> spec_formatAmount 5 0 \<and> last (formatAmount 5 0) \<noteq> CHR ''.''"
  by (simp add: formatAmount_nonneg spec_formatAmount_def padStart_def eval_toString)


section \<open>The client constructors\<close>

lemma is1inchGateway_sublist: "is1inchGateway u \<longleftrightarrow> sublist ''api.1inch.com/web3'' u"
  by (simp add: is1inchGateway_def str_includes_sublist)





lemma length_demo_key: "length demo_key = 66"
  by (simp add: demo_key_def)

lemma take_42_demo_key: "take 42 demo_key = demo_address"
  by (simp add: demo_key_def demo_address_def)

lemma startsWith_demo_key: "startsWith demo_key ''0x''"
  by (simp add: demo_key_def)

lemma demo_evm_lib_demo_key:
  "new_Wallet demo_evm_lib demo_key = Inr demo_address"
  "privateKeyToAccount demo_evm_lib demo_key = Inr demo_address"
  "new_PrivateKeyProviderConnector demo_evm_lib demo_key = None"
  by (simp_all add: demo_evm_lib_def length_demo_key take_42_demo_key)

lemma demo_evm_lib_short_key:
  "new_Wallet demo_evm_lib ''0x01'' = Inl invalid_private_key"
  "privateKeyToAccount demo_evm_lib ''0x01'' = Inl invalid_private_key"
  by (simp_all add: demo_evm_lib_def)

lemma config_fields:
  "privateKey gateway_config = demo_key" "rpcUrl gateway_config = ''https://api.1inch.com/web3/1''"
  "apiKey gateway_config = ''KEY''" "networkId gateway_config = ''1''"
  "privateKey other_config = demo_key" "rpcUrl other_config = ''https://rpc.example.org''"
  "apiKey other_config = ''KEY''" "networkId other_config = ''1''"
  "privateKey unichain_config = demo_key" "rpcUrl unichain_config = ''https://api.1inch.com/web3/130''"
  "apiKey unichain_config = ''KEY''" "networkId unichain_config = ''130''"
  by (simp_all add: gateway_config_def other_config_def unichain_config_def)

lemma get_property_VIEM_1: "get_property VIEM_CHAIN_MAP ''1'' = Some (Own mainnet)"
  by (simp add: get_property_def VIEM_CHAIN_MAP_def)

lemma get_property_VIEM_130: "get_property VIEM_CHAIN_MAP ''130'' = None"
  by (simp add: get_property_def VIEM_CHAIN_MAP_def Object_prototype_keys_def)

lemma get_property_NETWORK_1: "get_property NETWORK_MAP ''1'' = Some (Own ETHEREUM)"
  by (simp add: get_property_def NETWORK_MAP_def)

lemma get_property_NETWORK_130: "get_property NETWORK_MAP ''130'' = Some (Own UNICHAIN)"
  by (simp add: get_property_def NETWORK_MAP_def)




lemma gateway_urls:
  "sublist ''api.1inch.com/web3'' ''https://api.1inch.com/web3/1''"
  "sublist ''api.1inch.com/web3'' ''https://api.1inch.com/web3/130''"
  "sublist ''api.1inch.com/web3'' ''https://api.1inch.com/web3/501''"
  "\<not> sublist ''api.1inch.com/web3'' ''https://rpc.example.org''"
  by (simp_all add: str_includes_sublist [symmetric])

section \<open>C10: the Authorization header goes to the 1inch gateway only\<close>





section \<open>C9: the key check of createWallet\<close>



lemma decoded_secret_key_length:
  "decoded_secret_key lib pk = Some k \<Longrightarrow> length k = 64"
  by (auto simp: decoded_secret_key_def split: if_splits option.splits)






section \<open>Running the scripts on concrete inputs\<close>

lemma perform_Inr: "perform c (Inr v) k = (c # fst (k v), snd (k v))"
  by (simp add: perform_def split: prod.splits)

lemma perform_Inl: "perform c (Inl e) k = ([c], Throw e)"
  by (simp add: perform_def)

lemma and_then_Return: "and_then (t, Return) b = (t @ fst b, snd b)"
  by (simp add: and_then_def split: prod.splits)

lemma and_then_Throw: "and_then (t, Throw e) b = (t, Throw e)"
  by (simp add: and_then_def)

lemma poll_run_pair: "poll_run (n, out) = (replicate n GetOrderStatus, out)"
  by (simp add: poll_run_def)

lemmas run_simps = perform_Inr perform_Inl and_then_Return and_then_Throw poll_run_pair

lemma fst_perform:
  "fst (perform c res k) = c # (case res of Inl e \<Rightarrow> [] | Inr v \<Rightarrow> fst (k v))"
  by (cases res) (simp_all add: perform_Inl perform_Inr)

lemma snd_perform:
  "snd (perform c res k) = (case res of Inl e \<Rightarrow> Throw e | Inr v \<Rightarrow> snd (k v))"
  by (cases res) (simp_all add: perform_Inl perform_Inr)

lemma calls_entry_point: "calls (entry_point r) = fst r"
  by (cases r; cases "snd r") (auto simp: entry_point_def)

lemma exit_code_entry_point: "exit_code (entry_point r) = (case snd r of Return \<Rightarrow> 0 | Throw e \<Rightarrow> 1)"
  by (cases r; cases "snd r") (auto simp: entry_point_def)

lemma entry_point_Throw:
  "entry_point (t, Throw e) =
     ProcessEnd t
       (ErrorLine (message e) # (case response_data e of Some d \<Rightarrow> [ApiResponseLine d] | None \<Rightarrow> []))
       1"
  by (simp add: entry_point_def)

lemma entry_point_Return: "entry_point (t, Return) = ProcessEnd t [] 0"
  by (simp add: entry_point_def)

lemma exit_code_0_iff: "exit_code (entry_point r) = 0 \<longleftrightarrow> snd r = Return"
  by (cases "snd r") (simp_all add: exit_code_entry_point)

lemma exit_code_0_or_1: "exit_code (entry_point r) \<noteq> 0 \<Longrightarrow> exit_code (entry_point r) = 1"
  by (cases "snd r") (simp_all add: exit_code_entry_point)

lemma exit_code_quick_start_entry_point: "exit_code (quick_start_entry_point r) = 0"
  by (cases r; cases "snd r") (auto simp: quick_start_entry_point_def)

lemma demo_key_nonempty: "demo_key \<noteq> []"
  by (simp add: demo_key_def)

lemma loadConfig_demo_env: "loadConfig demo_env = Inr gateway_config"
  by (simp add: loadConfig_def demo_env_def gateway_config_def falsy_def or_default_def
        getDefaultRpcUrl_def Let_def startsWith_demo_key demo_key_nonempty)

lemma loadConfig_unichain_env: "loadConfig unichain_env = Inr unichain_config"
  by (simp add: loadConfig_def unichain_env_def unichain_config_def falsy_def or_default_def
        getDefaultRpcUrl_def Let_def startsWith_demo_key demo_key_nonempty)

lemma env_demo_world [simp]: "env (demo_world e b al f) = e"
  and balance_demo_world [simp]: "balance_result (demo_world e b al f) = Inr b"
  and allowance_demo_world [simp]: "allowance_result (demo_world e b al f) = Inr al"
  and approve_demo_world [simp]: "approve_result (demo_world e b al f) = Inr ''0xapprove''"
  and wait_demo_world [simp]: "wait_result (demo_world e b al f) = Inr ()"
  and quote_demo_world [simp]:
    "quote_result (demo_world e b al f) = Inr (Quote ''fast'' [''fast'', ''medium''])"
  and createOrder_demo_world [simp]: "createOrder_result (demo_world e b al f) = Inr ()"
  and submitOrder_demo_world [simp]: "submitOrder_result (demo_world e b al f) = Inr ''0xorder''"
  and escrow_send_demo_world [simp]: "escrow_send_result (demo_world e b al f) = Inr ''0xescrow''"
  and escrow_wait_demo_world [simp]: "escrow_wait_result (demo_world e b al f) = Inr ()"
  and status_feed_demo_world [simp]: "status_feed (demo_world e b al f) = f"
  by (simp_all add: demo_world_def)

lemma quote_fails_world_fields:
  "env (quote_fails_world b al) = demo_env"
  "balance_result (quote_fails_world b al) = Inr b"
  "allowance_result (quote_fails_world b al) = Inr al"
  "approve_result (quote_fails_world b al) = Inr ''0xapprove''"
  "wait_result (quote_fails_world b al) = Inr ()"
  "quote_result (quote_fails_world b al) = Inl api_error_400"
  by (simp_all add: quote_fails_world_def)

lemma wait_fails_world_fields:
  "env (wait_fails_world b al) = demo_env"
  "balance_result (wait_fails_world b al) = Inr b"
  "allowance_result (wait_fails_world b al) = Inr al"
  "approve_result (wait_fails_world b al) = Inr ''0xapprove''"
  "wait_result (wait_fails_world b al) = Inl api_error_400"
  by (simp_all add: wait_fails_world_def)

lemma ethers_createProvider_ops:
  assumes "ethers_createProvider lib cfg = Inr p"
  shows "new_Wallet lib (privateKey cfg) = Inr (address p)"
    and "getNativeBalance p x = Ethers_getBalance (JsonRpcProvider (client_transport p)) x"
    and "getTokenBalance p t ow =
           Ethers_Contract (JsonRpcProvider (client_transport p)) t ''balanceOf'' [AddressArg ow]"
    and "getTokenAllowance p t ow sp =
           Ethers_Contract (JsonRpcProvider (client_transport p)) t ''allowance''
             [AddressArg ow, AddressArg sp]"
    and "approveToken p t sp amt =
           Ethers_Contract (Wallet (address p) (client_transport p)) t ''approve''
             [AddressArg sp, UintArg amt]"
    and "waitForTransaction p h =
           Ethers_waitForTransaction (JsonRpcProvider (client_transport p)) h"
    and "eth_call (web3Like p) tc = Ethers_call (JsonRpcProvider (client_transport p)) tc"
    and "eth_call_returns (web3Like p) r = r"
    and "client_chain p = None"
  using assms by (auto simp: ethers_createProvider_def Let_def split: sum.splits)

lemma viem_createProvider_ops:
  assumes "viem_createProvider lib cfg = Inr p"
  shows "privateKeyToAccount lib (privateKey cfg) = Inr (address p)"
    and "client_chain p = get_property VIEM_CHAIN_MAP (networkId cfg)"
    and "client_chain p \<noteq> None"
    and "getNativeBalance p x =
           Viem_getBalance (PublicClient (the (client_chain p)) (client_transport p)) x"
    and "getTokenBalance p t ow =
           Viem_readContract (PublicClient (the (client_chain p)) (client_transport p)) t
             ''balanceOf'' [AddressArg ow]"
    and "getTokenAllowance p t ow sp =
           Viem_readContract (PublicClient (the (client_chain p)) (client_transport p)) t
             ''allowance'' [AddressArg ow, AddressArg sp]"
    and "approveToken p t sp amt =
           Viem_writeContract
             (WalletClient (address p) (the (client_chain p)) (client_transport p))
             (address p) (the (client_chain p)) t ''approve'' [AddressArg sp, UintArg amt]"
    and "waitForTransaction p h =
           Viem_waitForTransactionReceipt
             (PublicClient (the (client_chain p)) (client_transport p)) h"
    and "eth_call (web3Like p) tc =
           Viem_call (PublicClient (the (client_chain p)) (client_transport p))
             (tx_to tc) (tx_data tc)"
    and "eth_call_returns (web3Like p) r = Some (or_default r ''0x'')"
  using assms by (auto simp: viem_createProvider_def Let_def split: option.splits sum.splits)

lemma is1inchGateway_demo:
  "is1inchGateway ''https://api.1inch.com/web3/1''"
  "is1inchGateway ''https://api.1inch.com/web3/130''"
  "\<not> is1inchGateway ''https://rpc.example.org''"
  by (simp_all add: is1inchGateway_sublist gateway_urls)

lemma ethers_createProvider_gateway:
  "\<exists>p. ethers_createProvider demo_evm_lib gateway_config = Inr p
       \<and> address p = demo_address \<and> client_transport p = gateway_rpc"
  by (simp add: ethers_createProvider_def Let_def config_fields demo_evm_lib_demo_key
        is1inchGateway_demo gateway_rpc_def)

lemma viem_createProvider_gateway:
  "\<exists>p. viem_createProvider demo_evm_lib gateway_config = Inr p
       \<and> address p = demo_address \<and> client_transport p = gateway_rpc
       \<and> client_chain p = Some (Own mainnet)"
  by (simp add: viem_createProvider_def Let_def config_fields demo_evm_lib_demo_key
        is1inchGateway_demo gateway_rpc_def get_property_VIEM_1)

lemma createFusionSDK_gateway:
  "\<exists>sdk. createFusionSDK demo_evm_lib gateway_config w3 = Inr sdk"
  by (simp add: createFusionSDK_def config_fields get_property_NETWORK_1 demo_evm_lib_demo_key)

lemma createFusionSDK_unichain:
  "\<exists>sdk. createFusionSDK demo_evm_lib unichain_config w3 = Inr sdk"
  by (simp add: createFusionSDK_def config_fields get_property_NETWORK_130 demo_evm_lib_demo_key)

lemma iteration_Filled: "iteration (Inr Filled) = Inr Returned"
  by (simp add: iteration_def try_block_def)

lemma poll_loop_filled_feed: "poll_loop filled_feed 0 0 = (Suc 0, Return)"
  by (subst poll_loop.simps) (simp add: filled_feed_def iteration_Filled orderTimeout_def)

text \<open>
  The ERC-20 script with the ethers provider in a demo world: balance and allowance
  suffice, and the status feed decides.
\<close>

lemma swap_erc20_main_demo:
  "swap_erc20_main demo_evm_lib (ethers_createProvider demo_evm_lib)
     (demo_world demo_env 5000000 5000000 feed)
   = ([Lib (Ethers_Contract (JsonRpcProvider gateway_rpc) USDC ''balanceOf''
              [AddressArg demo_address]),
       Lib (Ethers_Contract (JsonRpcProvider gateway_rpc) USDC ''allowance''
              [AddressArg demo_address, AddressArg AGGREGATION_ROUTER_V6]),
       GetQuote, CreateOrder, SubmitOrder]
      @ fst (poll_run (poll_loop feed 0 0)),
      snd (poll_run (poll_loop feed 0 0)))"
proof -
  obtain p where p: "ethers_createProvider demo_evm_lib gateway_config = Inr p"
    and a: "address p = demo_address" and t: "client_transport p = gateway_rpc"
    using ethers_createProvider_gateway by blast
  obtain sdk where sdk: "createFusionSDK demo_evm_lib gateway_config (web3Like p) = Inr sdk"
    using createFusionSDK_gateway by blast
  note f = ethers_createProvider_ops(2-6) [OF p, unfolded a t]
  show ?thesis
    by (simp add: swap_erc20_main_def loadConfig_demo_env p sdk f a run_simps)
qed

lemma poll_loop_sound:
  "poll_loop feed i e = (m, out) \<Longrightarrow>
     i \<le> m
     \<and> (\<forall>k. i \<le> k \<and> k < m \<longrightarrow> e + (\<Sum>j = i..<k. snd (feed j) + pollInterval) < orderTimeout)
     \<and> (\<forall>k. i \<le> k \<and> Suc k < m \<longrightarrow> iteration (fst (feed k)) = Inr Continue)
     \<and> (case out of
          Return \<Rightarrow> i < m \<and> iteration (fst (feed (m - 1))) = Inr Returned
        | Throw err \<Rightarrow>
            (i < m \<and> iteration (fst (feed (m - 1))) = Inl err)
            \<or> (err = new_Error ''Order timeout after 300s''
                \<and> (\<forall>k. i \<le> k \<and> k < m \<longrightarrow> iteration (fst (feed k)) = Inr Continue)
                \<and> orderTimeout \<le> e + (\<Sum>j = i..<m. snd (feed j) + pollInterval)))"
proof (induction feed i e arbitrary: m out rule: poll_loop.induct)
  case (1 feed i e)
  show ?case
  proof (cases "e < orderTimeout")
    case False
    with "1.prems" have "m = i" "out = Throw (new_Error ''Order timeout after 300s'')"
      by (simp_all add: poll_loop.simps [of feed i e])
    with False show ?thesis by auto
  next
    case lt: True
    show ?thesis
    proof (cases "iteration (fst (feed i))")
      case (Inl err)
      with lt "1.prems" have "m = Suc i" "out = Throw err"
        by (simp_all add: poll_loop.simps [of feed i e])
      with lt Inl show ?thesis by (auto simp: le_Suc_eq)
    next
      case (Inr st)
      show ?thesis
      proof (cases st)
        case Returned
        with Inr lt "1.prems" have "m = Suc i" "out = Return"
          by (simp_all add: poll_loop.simps [of feed i e])
        with lt Inr Returned show ?thesis by (auto simp: le_Suc_eq)
      next
        case Continue
        let ?e' = "e + snd (feed i) + pollInterval"
        from Inr Continue lt "1.prems" have r: "poll_loop feed (Suc i) ?e' = (m, out)"
          by (simp add: poll_loop.simps [of feed i e])
        have c: "iteration (fst (feed i)) = Inr Continue" using Inr Continue by simp
        note IH = "1.IH" [OF lt Inr Continue r]
        have sum: "\<And>k. i < k \<Longrightarrow>
                e + (\<Sum>j = i..<k. snd (feed j) + pollInterval)
                  = ?e' + (\<Sum>j = Suc i..<k. snd (feed j) + pollInterval)"
          by (simp add: sum.atLeast_Suc_lessThan)
        have le: "i \<le> m" using IH by simp
        have t: "\<forall>k. i \<le> k \<and> k < m \<longrightarrow>
                   e + (\<Sum>j = i..<k. snd (feed j) + pollInterval) < orderTimeout"
        proof (intro allI impI)
          fix k assume k: "i \<le> k \<and> k < m"
          show "e + (\<Sum>j = i..<k. snd (feed j) + pollInterval) < orderTimeout"
          proof (cases "k = i")
            case True
            then show ?thesis using lt by simp
          next
            case False
            with k have ik: "i < k" and k': "Suc i \<le> k \<and> k < m" by simp_all
            from IH k' have "?e' + (\<Sum>j = Suc i..<k. snd (feed j) + pollInterval) < orderTimeout"
              by blast
            then show ?thesis by (simp only: sum [OF ik])
          qed
        qed
        have cont: "\<And>k. i \<le> k \<Longrightarrow> k < m \<Longrightarrow>
                     (\<forall>k'. Suc i \<le> k' \<and> k' < m \<longrightarrow> iteration (fst (feed k')) = Inr Continue)
                     \<Longrightarrow> iteration (fst (feed k)) = Inr Continue"
          using c by (metis Suc_leI le_neq_implies_less)
        have b: "\<forall>k. i \<le> k \<and> Suc k < m \<longrightarrow> iteration (fst (feed k)) = Inr Continue"
        proof (intro allI impI)
          fix k assume k: "i \<le> k \<and> Suc k < m"
          show "iteration (fst (feed k)) = Inr Continue"
          proof (cases "k = i")
            case True
            then show ?thesis using c by simp
          next
            case False
            with k have "Suc i \<le> k \<and> Suc k < m" by simp
            with IH show ?thesis by blast
          qed
        qed
        have o: "case out of
                   Return \<Rightarrow> i < m \<and> iteration (fst (feed (m - 1))) = Inr Returned
                 | Throw err \<Rightarrow>
                     (i < m \<and> iteration (fst (feed (m - 1))) = Inl err)
                     \<or> (err = new_Error ''Order timeout after 300s''
                         \<and> (\<forall>k. i \<le> k \<and> k < m \<longrightarrow> iteration (fst (feed k)) = Inr Continue)
                         \<and> orderTimeout \<le> e + (\<Sum>j = i..<m. snd (feed j) + pollInterval))"
        proof (cases out)
          case Return
          with IH show ?thesis by simp
        next
          case (Throw err)
          from IH Throw have
            d: "(Suc i < m \<and> iteration (fst (feed (m - 1))) = Inl err)
                \<or> (err = new_Error ''Order timeout after 300s''
                    \<and> (\<forall>k. Suc i \<le> k \<and> k < m \<longrightarrow> iteration (fst (feed k)) = Inr Continue)
                    \<and> orderTimeout \<le> ?e' + (\<Sum>j = Suc i..<m. snd (feed j) + pollInterval))"
            by simp
          have m: "Suc i \<le> m" using IH by simp
          then have s: "e + (\<Sum>j = i..<m. snd (feed j) + pollInterval)
                         = ?e' + (\<Sum>j = Suc i..<m. snd (feed j) + pollInterval)"
            using sum [of m] by simp
          from d show ?thesis
          proof
            assume "Suc i < m \<and> iteration (fst (feed (m - 1))) = Inl err"
            then show ?thesis using Throw by simp
          next
            assume a: "err = new_Error ''Order timeout after 300s''
                    \<and> (\<forall>k. Suc i \<le> k \<and> k < m \<longrightarrow> iteration (fst (feed k)) = Inr Continue)
                    \<and> orderTimeout \<le> ?e' + (\<Sum>j = Suc i..<m. snd (feed j) + pollInterval)"
            then have "\<forall>k. i \<le> k \<and> k < m \<longrightarrow> iteration (fst (feed k)) = Inr Continue"
              using cont by blast
            with a s show ?thesis using Throw by simp
          qed
        qed
        from le t b o show ?thesis by blast
      qed
    qed
  qed
qed


lemma iteration_Continue_iff: "iteration r = Inr Continue \<longleftrightarrow> retried r"
  by (auto simp: iteration_def try_block_def catch_block_def retried_def str_includes_sublist
        new_Error_def split: sum.splits order_status.splits)

lemma iteration_Returned_iff: "iteration r = Inr Returned \<longleftrightarrow> r = Inr Filled"
  by (auto simp: iteration_def try_block_def catch_block_def
        split: sum.splits order_status.splits if_splits)

lemma Order_in_own_errors:
  "str_includes ''Order expired without being filled'' ''Order''"
  "str_includes ''Order was cancelled'' ''Order''"
  by simp_all

lemma iteration_Inl_iff:
  "iteration r = Inl err \<longleftrightarrow>
     (r = Inr Expired \<and> err = new_Error ''Order expired without being filled'')
     \<or> (r = Inr Cancelled \<and> err = new_Error ''Order was cancelled'')
     \<or> (r = Inl err \<and> instanceof_Error err \<and> sublist ''Order'' (message err))"
  by (auto simp: iteration_def try_block_def catch_block_def new_Error_def
        str_includes_sublist [symmetric]
        split: sum.splits order_status.splits if_splits)

lemma sum_interval_ge: "n * c \<le> (\<Sum>j<n. f j + (c::nat))"
  by (induction n) simp_all

lemma sol_poll_loop_sound:
  "sol_poll_loop feed i e = (m, out) \<Longrightarrow>
     out = Return \<and> i \<le> m
     \<and> (\<forall>k. i \<le> k \<and> k < m \<longrightarrow> e + (\<Sum>j = i..<k. snd (feed j) + sol_pollInterval) < orderTimeout)
     \<and> (\<forall>k. i \<le> k \<and> Suc k < m \<longrightarrow> sol_iteration (fst (feed k)) = Continue)
     \<and> ((i < m \<and> sol_iteration (fst (feed (m - 1))) = Returned)
         \<or> ((\<forall>k. i \<le> k \<and> k < m \<longrightarrow> sol_iteration (fst (feed k)) = Continue)
             \<and> orderTimeout \<le> e + (\<Sum>j = i..<m. snd (feed j) + sol_pollInterval)))"
proof (induction feed i e arbitrary: m out rule: sol_poll_loop.induct)
  case (1 feed i e)
  show ?case
  proof (cases "e < orderTimeout")
    case False
    with "1.prems" have "m = i" "out = Return"
      by (simp_all add: sol_poll_loop.simps [of feed i e])
    with False show ?thesis by auto
  next
    case lt: True
    show ?thesis
    proof (cases "sol_iteration (fst (feed i))")
      case Returned
      with lt "1.prems" have "m = Suc i" "out = Return"
        by (simp_all add: sol_poll_loop.simps [of feed i e])
      with lt Returned show ?thesis by (auto simp: le_Suc_eq)
    next
      case Continue
      let ?e' = "e + snd (feed i) + sol_pollInterval"
      from Continue lt "1.prems" have r: "sol_poll_loop feed (Suc i) ?e' = (m, out)"
        by (simp add: sol_poll_loop.simps [of feed i e])
      note IH = "1.IH" [OF lt Continue r]
      have sum: "\<And>k. i < k \<Longrightarrow>
              e + (\<Sum>j = i..<k. snd (feed j) + sol_pollInterval)
                = ?e' + (\<Sum>j = Suc i..<k. snd (feed j) + sol_pollInterval)"
        by (simp add: sum.atLeast_Suc_lessThan)
      have le: "out = Return \<and> i \<le> m" using IH by simp
      have m: "Suc i \<le> m" using IH by simp
      have t: "\<forall>k. i \<le> k \<and> k < m \<longrightarrow>
                 e + (\<Sum>j = i..<k. snd (feed j) + sol_pollInterval) < orderTimeout"
      proof (intro allI impI)
        fix k assume k: "i \<le> k \<and> k < m"
        show "e + (\<Sum>j = i..<k. snd (feed j) + sol_pollInterval) < orderTimeout"
        proof (cases "k = i")
          case True
          then show ?thesis using lt by simp
        next
          case False
          with k have ik: "i < k" and k': "Suc i \<le> k \<and> k < m" by simp_all
          from IH k' have "?e' + (\<Sum>j = Suc i..<k. snd (feed j) + sol_pollInterval) < orderTimeout"
            by blast
          then show ?thesis by (simp only: sum [OF ik])
        qed
      qed
      have cont: "\<And>k. i \<le> k \<Longrightarrow> k < m \<Longrightarrow>
                   (\<forall>k'. Suc i \<le> k' \<and> k' < m \<longrightarrow> sol_iteration (fst (feed k')) = Continue)
                   \<Longrightarrow> sol_iteration (fst (feed k)) = Continue"
        using Continue by (metis Suc_leI le_neq_implies_less)
      have b: "\<forall>k. i \<le> k \<and> Suc k < m \<longrightarrow> sol_iteration (fst (feed k)) = Continue"
      proof (intro allI impI)
        fix k assume k: "i \<le> k \<and> Suc k < m"
        show "sol_iteration (fst (feed k)) = Continue"
        proof (cases "k = i")
          case True
          then show ?thesis using Continue by simp
        next
          case False
          with k have "Suc i \<le> k \<and> Suc k < m" by simp
          with IH show ?thesis by blast
        qed
      qed
      from IH have
        d: "(Suc i < m \<and> sol_iteration (fst (feed (m - 1))) = Returned)
            \<or> ((\<forall>k. Suc i \<le> k \<and> k < m \<longrightarrow> sol_iteration (fst (feed k)) = Continue)
                \<and> orderTimeout \<le> ?e' + (\<Sum>j = Suc i..<m. snd (feed j) + sol_pollInterval))"
        by simp
      have s: "e + (\<Sum>j = i..<m. snd (feed j) + sol_pollInterval)
                     = ?e' + (\<Sum>j = Suc i..<m. snd (feed j) + sol_pollInterval)"
        using sum [of m] m by simp
      have o: "(i < m \<and> sol_iteration (fst (feed (m - 1))) = Returned)
         \<or> ((\<forall>k. i \<le> k \<and> k < m \<longrightarrow> sol_iteration (fst (feed k)) = Continue)
             \<and> orderTimeout \<le> e + (\<Sum>j = i..<m. snd (feed j) + sol_pollInterval))"
        using d
      proof
        assume "Suc i < m \<and> sol_iteration (fst (feed (m - 1))) = Returned"
        then show ?thesis by simp
      next
        assume a: "(\<forall>k. Suc i \<le> k \<and> k < m \<longrightarrow> sol_iteration (fst (feed k)) = Continue)
                \<and> orderTimeout \<le> ?e' + (\<Sum>j = Suc i..<m. snd (feed j) + sol_pollInterval)"
        then have "\<forall>k. i \<le> k \<and> k < m \<longrightarrow> sol_iteration (fst (feed k)) = Continue"
          using cont by blast
        with a s show ?thesis by simp
      qed
      from le t b o show ?thesis by blast
    qed
  qed
qed

lemma sol_iteration_Continue_iff:
  "sol_iteration r = Continue \<longleftrightarrow> r \<noteq> Inr False"
  by (auto simp: sol_iteration_def split: sum.splits)

lemma sol_iteration_Returned_iff:
  "sol_iteration r = Returned \<longleftrightarrow> r = Inr False"
  by (auto simp: sol_iteration_def split: sum.splits)


lemma poll_loop_from_start:
  assumes "poll_loop feed 0 0 = (m, out)"
  shows "\<forall>k<m. (\<Sum>j<k. snd (feed j) + pollInterval) < orderTimeout"
    and "\<forall>k. Suc k < m \<longrightarrow> retried (fst (feed k))"
    and "out = Return \<Longrightarrow> 0 < m \<and> fst (feed (m - 1)) = Inr Filled"
    and "out = Throw err \<Longrightarrow>
           (0 < m \<and> iteration (fst (feed (m - 1))) = Inl err)
           \<or> (err = new_Error ''Order timeout after 300s''
               \<and> (\<forall>k<m. retried (fst (feed k)))
               \<and> orderTimeout \<le> (\<Sum>j<m. snd (feed j) + pollInterval))"
  using poll_loop_sound [OF assms]
  by (auto simp: atLeast0LessThan iteration_Continue_iff iteration_Returned_iff)

lemma poll_loop_at_most_100:
  assumes "poll_loop feed 0 0 = (m, out)"
  shows "m \<le> 100"
proof (cases m)
  case 0
  then show ?thesis by simp
next
  case (Suc k)
  with poll_loop_from_start(1) [OF assms]
  have "(\<Sum>j<k. snd (feed j) + pollInterval) < orderTimeout" by simp
  with sum_interval_ge [of k pollInterval "\<lambda>j. snd (feed j)"]
  have "k * pollInterval < orderTimeout" by simp
  then have "k < 100" by (simp add: pollInterval_def orderTimeout_def)
  with Suc show ?thesis by simp
qed

lemma sol_poll_loop_from_start:
  assumes "sol_poll_loop feed 0 0 = (n, out)"
  shows "out = Return"
    and "\<forall>k<n. (\<Sum>j<k. snd (feed j) + sol_pollInterval) < orderTimeout"
    and "\<forall>k. Suc k < n \<longrightarrow> fst (feed k) \<noteq> Inr False"
    and "(0 < n \<and> fst (feed (n - 1)) = Inr False)
         \<or> ((\<forall>k<n. fst (feed k) \<noteq> Inr False)
             \<and> orderTimeout \<le> (\<Sum>j<n. snd (feed j) + sol_pollInterval))"
  using sol_poll_loop_sound [OF assms]
  by (auto simp: atLeast0LessThan sol_iteration_Continue_iff sol_iteration_Returned_iff)

lemma sol_poll_loop_at_most_150:
  assumes "sol_poll_loop feed 0 0 = (n, out)"
  shows "n \<le> 150"
proof (cases n)
  case 0
  then show ?thesis by simp
next
  case (Suc k)
  with sol_poll_loop_from_start(2) [OF assms]
  have "(\<Sum>j<k. snd (feed j) + sol_pollInterval) < orderTimeout" by simp
  with sum_interval_ge [of k sol_pollInterval "\<lambda>j. snd (feed j)"]
  have "k * sol_pollInterval < orderTimeout" by simp
  then have "k < 150" by (simp add: sol_pollInterval_def orderTimeout_def)
  with Suc show ?thesis by simp
qed

lemma poll_loop_Return_iff:
  assumes "poll_loop feed 0 0 = (m, out)"
  shows "out = Return \<longleftrightarrow> 0 < m \<and> fst (feed (m - 1)) = Inr Filled"
proof
  assume "out = Return"
  then show "0 < m \<and> fst (feed (m - 1)) = Inr Filled"
    by (rule poll_loop_from_start(3) [OF assms])
next
  assume f: "0 < m \<and> fst (feed (m - 1)) = Inr Filled"
  show "out = Return"
  proof (cases out)
    case Return
    then show ?thesis .
  next
    case (Throw err)
    from f have l: "m - 1 < m" "fst (feed (m - 1)) = Inr Filled" by simp_all
    from poll_loop_from_start(4) [OF assms Throw]
    have "retried (fst (feed (m - 1)))"
      using l by (auto simp: iteration_Inl_iff simp del: One_nat_def)
    then show ?thesis using l by (simp add: retried_def)
  qed
qed

lemma poll_loop_gateway_error_then_filled:
  "poll_loop gateway_error_then_filled_feed 0 0 = (2, Return)"
proof -
  have i0: "iteration (fst (gateway_error_then_filled_feed 0)) = Inr Continue"
    by (simp add: gateway_error_then_filled_feed_def iteration_def try_block_def catch_block_def)
  have i1: "iteration (fst (gateway_error_then_filled_feed (Suc 0))) = Inr Returned"
    by (simp add: gateway_error_then_filled_feed_def iteration_def try_block_def)
  have d0: "snd (gateway_error_then_filled_feed 0) = 200"
    by (simp add: gateway_error_then_filled_feed_def)
  have "poll_loop gateway_error_then_filled_feed 0 0
          = poll_loop gateway_error_then_filled_feed (Suc 0) (0 + 200 + pollInterval)"
    by (subst poll_loop.simps) (simp add: i0 d0 orderTimeout_def)
  also have "\<dots> = (2, Return)"
    by (subst poll_loop.simps) (simp add: i1 orderTimeout_def pollInterval_def)
  finally show ?thesis .
qed

lemma poll_loop_order_not_found:
  "poll_loop order_not_found_then_filled_feed 0 0 = (1, Throw (JsError True ''Order not found'' None))"
proof -
  have i0: "iteration (fst (order_not_found_then_filled_feed 0))
              = Inl (JsError True ''Order not found'' None)"
    by (simp add: order_not_found_then_filled_feed_def iteration_def try_block_def catch_block_def)
  show ?thesis
    by (subst poll_loop.simps) (simp add: i0 orderTimeout_def)
qed


section \<open>C5: the polling loops\<close>

text \<open>
  C5. The EVM polling loop queries \<open>getOrderStatus\<close>, sleeping \<open>pollInterval\<close> after every
  query that does not end it, and makes a query only while less than \<open>orderTimeout\<close> has
  elapsed (so at most 100 queries). It ends by \<open>Filled\<close> (returns), by \<open>Expired\<close> or
  \<open>Cancelled\<close> (throws), by the timeout (throws), or by a thrown \<open>Error\<close> of the status
  query whose message contains \<open>Order\<close>, which the \<open>catch\<close> block rethrows. Every other
  value thrown by the status query is caught and the query retried. The Solana loop
  retries every error: it ends only when the order is no longer active or at the
  timeout, and returns in both cases.
\<close>

theorem poll_loops_end:
  "(poll_loop feed 0 0 = (m, out) \<longrightarrow>
      m \<le> 100
      \<and> (\<forall>k<m. (\<Sum>j<k. snd (feed j) + pollInterval) < orderTimeout)
      \<and> (\<forall>k. Suc k < m \<longrightarrow> retried (fst (feed k)))
      \<and> (out = Return \<longleftrightarrow> 0 < m \<and> fst (feed (m - 1)) = Inr Filled)
      \<and> (\<forall>err. out = Throw err \<longrightarrow>
            (0 < m \<and> fst (feed (m - 1)) = Inr Expired
               \<and> err = new_Error ''Order expired without being filled'')
            \<or> (0 < m \<and> fst (feed (m - 1)) = Inr Cancelled
               \<and> err = new_Error ''Order was cancelled'')
            \<or> (0 < m \<and> fst (feed (m - 1)) = Inl err
               \<and> instanceof_Error err \<and> sublist ''Order'' (message err))
            \<or> (err = new_Error ''Order timeout after 300s''
               \<and> (\<forall>k<m. retried (fst (feed k)))
               \<and> orderTimeout \<le> (\<Sum>j<m. snd (feed j) + pollInterval))))
   \<and> (sol_poll_loop sfeed 0 0 = (n, sout) \<longrightarrow>
      sout = Return \<and> n \<le> 150
      \<and> (\<forall>k<n. (\<Sum>j<k. snd (sfeed j) + sol_pollInterval) < orderTimeout)
      \<and> (\<forall>k. Suc k < n \<longrightarrow> fst (sfeed k) \<noteq> Inr False)
      \<and> ((0 < n \<and> fst (sfeed (n - 1)) = Inr False)
          \<or> ((\<forall>k<n. fst (sfeed k) \<noteq> Inr False)
              \<and> orderTimeout \<le> (\<Sum>j<n. snd (sfeed j) + sol_pollInterval))))"
proof (intro conjI impI)
  assume a: "poll_loop feed 0 0 = (m, out)"
  show "m \<le> 100" by (rule poll_loop_at_most_100 [OF a])
  show "\<forall>k<m. (\<Sum>j<k. snd (feed j) + pollInterval) < orderTimeout"
    by (rule poll_loop_from_start(1) [OF a])
  show "\<forall>k. Suc k < m \<longrightarrow> retried (fst (feed k))"
    by (rule poll_loop_from_start(2) [OF a])
  show "out = Return \<longleftrightarrow> 0 < m \<and> fst (feed (m - 1)) = Inr Filled"
    by (rule poll_loop_Return_iff [OF a])
  show "\<forall>err. out = Throw err \<longrightarrow>
            (0 < m \<and> fst (feed (m - 1)) = Inr Expired
               \<and> err = new_Error ''Order expired without being filled'')
            \<or> (0 < m \<and> fst (feed (m - 1)) = Inr Cancelled
               \<and> err = new_Error ''Order was cancelled'')
            \<or> (0 < m \<and> fst (feed (m - 1)) = Inl err
               \<and> instanceof_Error err \<and> sublist ''Order'' (message err))
            \<or> (err = new_Error ''Order timeout after 300s''
               \<and> (\<forall>k<m. retried (fst (feed k)))
               \<and> orderTimeout \<le> (\<Sum>j<m. snd (feed j) + pollInterval))"
  proof (intro allI impI)
    fix err assume t: "out = Throw err"
    from poll_loop_from_start(4) [OF a t]
    show "(0 < m \<and> fst (feed (m - 1)) = Inr Expired
               \<and> err = new_Error ''Order expired without being filled'')
            \<or> (0 < m \<and> fst (feed (m - 1)) = Inr Cancelled
               \<and> err = new_Error ''Order was cancelled'')
            \<or> (0 < m \<and> fst (feed (m - 1)) = Inl err
               \<and> instanceof_Error err \<and> sublist ''Order'' (message err))
            \<or> (err = new_Error ''Order timeout after 300s''
               \<and> (\<forall>k<m. retried (fst (feed k)))
               \<and> orderTimeout \<le> (\<Sum>j<m. snd (feed j) + pollInterval))"
      by (auto simp: iteration_Inl_iff)
  qed
next
  assume b: "sol_poll_loop sfeed 0 0 = (n, sout)"
  show "sout = Return" by (rule sol_poll_loop_from_start(1) [OF b])
  show "n \<le> 150" by (rule sol_poll_loop_at_most_150 [OF b])
  show "\<forall>k<n. (\<Sum>j<k. snd (sfeed j) + sol_pollInterval) < orderTimeout"
    by (rule sol_poll_loop_from_start(2) [OF b])
  show "\<forall>k. Suc k < n \<longrightarrow> fst (sfeed k) \<noteq> Inr False"
    by (rule sol_poll_loop_from_start(3) [OF b])
  show "(0 < n \<and> fst (sfeed (n - 1)) = Inr False)
          \<or> ((\<forall>k<n. fst (sfeed k) \<noteq> Inr False)
              \<and> orderTimeout \<le> (\<Sum>j<n. snd (sfeed j) + sol_pollInterval))"
    by (rule sol_poll_loop_from_start(4) [OF b])
qed

text \<open>
  A 502 from the gateway at the first query is retried and the second query reports
  \<open>Filled\<close>; an \<open>Order not found\<close> error at the first query ends the loop.
\<close>

theorem poll_loops_end_witness:
  "poll_loop gateway_error_then_filled_feed 0 0 = (2, Return)
   \<and> retried (fst (gateway_error_then_filled_feed 0))
   \<and> fst (gateway_error_then_filled_feed 0)
       = Inl (JsError True ''Request failed with status code 502'' None)
   \<and> fst (gateway_error_then_filled_feed 1) = Inr Filled
   \<and> poll_loop order_not_found_then_filled_feed 0 0
       = (1, Throw (JsError True ''Order not found'' None))
   \<and> sublist ''Order'' (message (JsError True ''Order not found'' None))"
proof -
  note A = poll_loops_end [of gateway_error_then_filled_feed 2 Return "\<lambda>i. (Inr False, 0)" 1 Return]
  note B = poll_loops_end [of order_not_found_then_filled_feed 1
             "Throw (JsError True ''Order not found'' None)" "\<lambda>i. (Inr False, 0)" 1 Return]
  have r: "retried (fst (gateway_error_then_filled_feed 0))"
    using A poll_loop_gateway_error_then_filled by simp
  have f: "fst (gateway_error_then_filled_feed 1) = Inr Filled"
    using A poll_loop_gateway_error_then_filled by simp
  have e: "fst (gateway_error_then_filled_feed 0)
       = Inl (JsError True ''Request failed with status code 502'' None)"
    by (simp add: gateway_error_then_filled_feed_def)
  have o: "sublist ''Order'' (message (JsError True ''Order not found'' None))"
    using B poll_loop_order_not_found
    by (auto simp: new_Error_def order_not_found_then_filled_feed_def)
  show ?thesis
    using r f e o poll_loop_gateway_error_then_filled poll_loop_order_not_found by simp
qed

text \<open>
  The claim as stated fails: the first status query throws \<open>Error("Order not found")\<close>,
  the second would report \<open>Filled\<close>, and the loop rethrows after one query; the ERC-20
  script ends with status 1.
\<close>

theorem transient_Order_error_not_retried_counterexample:
  "fst (order_not_found_then_filled_feed 0) = Inl (JsError True ''Order not found'' None)
   \<and> fst (order_not_found_then_filled_feed 1) = Inr Filled
   \<and> poll_loop order_not_found_then_filled_feed 0 0
       = (1, Throw (JsError True ''Order not found'' None))
   \<and> swap_erc20 demo_evm_lib (ethers_createProvider demo_evm_lib)
         (demo_world demo_env 5000000 5000000 order_not_found_then_filled_feed)
       = ProcessEnd
           [Lib (Ethers_Contract (JsonRpcProvider gateway_rpc) USDC ''balanceOf''
                   [AddressArg demo_address]),
            Lib (Ethers_Contract (JsonRpcProvider gateway_rpc) USDC ''allowance''
                   [AddressArg demo_address, AddressArg AGGREGATION_ROUTER_V6]),
            GetQuote, CreateOrder, SubmitOrder, GetOrderStatus]
           [ErrorLine ''Order not found''] 1"
proof -
  have s: "swap_erc20 demo_evm_lib (ethers_createProvider demo_evm_lib)
         (demo_world demo_env 5000000 5000000 order_not_found_then_filled_feed)
       = ProcessEnd
           [Lib (Ethers_Contract (JsonRpcProvider gateway_rpc) USDC ''balanceOf''
                   [AddressArg demo_address]),
            Lib (Ethers_Contract (JsonRpcProvider gateway_rpc) USDC ''allowance''
                   [AddressArg demo_address, AddressArg AGGREGATION_ROUTER_V6]),
            GetQuote, CreateOrder, SubmitOrder, GetOrderStatus]
           [ErrorLine ''Order not found''] 1"
    by (simp add: swap_erc20_def swap_erc20_main_demo run_simps poll_loop_order_not_found
          entry_point_def)
  show ?thesis
    using poll_loop_order_not_found s by (simp add: order_not_found_then_filled_feed_def)
qed
end
